theory Spec2Isabelle
  imports Complex_Main
begin

section \<open>Rasters\<close>

text \<open>
  The notebooks work on two-dimensional numpy arrays. A raster is the list of its rows;
  \<open>cell g r c\<close> is \<open>g[r, c]\<close> and is only read inside the array's shape. An array
  expression of the notebooks that builds a new array cell by cell is \<open>tabulate2\<close>.
\<close>

type_synonym 'a raster = "'a list list"

definition nrows :: "'a raster \<Rightarrow> nat" where
  "nrows g = length g"

definition ncols :: "'a raster \<Rightarrow> nat" where
  "ncols g = (case g of [] \<Rightarrow> 0 | row # _ \<Rightarrow> length row)"

definition cell :: "'a raster \<Rightarrow> nat \<Rightarrow> nat \<Rightarrow> 'a" where
  "cell g r c = g ! r ! c"

definition tabulate2 :: "nat \<Rightarrow> nat \<Rightarrow> (nat \<Rightarrow> nat \<Rightarrow> 'a) \<Rightarrow> 'a raster" where
  "tabulate2 nr nc f = map (\<lambda>r. map (\<lambda>c. f r c) [0..<nc]) [0..<nr]"

definition has_shape :: "'a raster \<Rightarrow> nat \<Rightarrow> nat \<Rightarrow> bool" where
  "has_shape g nr nc = (length g = nr \<and> list_all (\<lambda>row. length row = nc) g)"

text \<open>
  \<open>a[cond] = v\<close> with a boolean array \<open>cond\<close> of the shape of \<open>a\<close>: the cells where
  the condition holds get \<open>v\<close>, the others keep their value.
\<close>

definition assign_where :: "'a raster \<Rightarrow> (nat \<Rightarrow> nat \<Rightarrow> bool) \<Rightarrow> 'a \<Rightarrow> 'a raster" where
  "assign_where a cond v =
     tabulate2 (nrows a) (ncols a) (\<lambda>r c. if cond r c then v else cell a r c)"

text \<open>
  The measurement layers are floating-point arrays. Only comparisons with a constant are
  made on them; a comparison with NaN is false.
\<close>

datatype float64 = Num real | NaN

fun f_le :: "float64 \<Rightarrow> real \<Rightarrow> bool" where
  "f_le (Num x) y = (x \<le> y)"
| "f_le NaN y = False"

fun f_ge :: "float64 \<Rightarrow> real \<Rightarrow> bool" where
  "f_ge (Num x) y = (x \<ge> y)"
| "f_ge NaN y = False"

fun f_eq :: "float64 \<Rightarrow> real \<Rightarrow> bool" where
  "f_eq (Num x) y = (x = y)"
| "f_eq NaN y = False"

section \<open>Analysis parameters\<close>

text \<open>\<open>dict_map\<close>: the dictionary of the pixel value of each class.\<close>

definition dict_map :: "(string \<times> nat) list" where
  "dict_map =
     [(''Tree crops'', 11), (''Field crops'', 12), (''Forest plantations'', 21),
      (''Grassland'', 31),
      (''Aquatic or regularly flooded herbaceous vegetation'', 41), (''Water body'', 44),
      (''Settlements'', 51), (''Bare soils'', 61), (''Mangrove'', 70), (''Mecrusse'', 71),
      (''Broadleaved (Semi-) evergreen forest'', 72),
      (''Broadleaved (Semi-) deciduous forest'', 74), (''Mopane'', 75)]"

datatype error = KeyError | IndexError

definition dict_get :: "string \<Rightarrow> error + nat" where
  "dict_get k = (case map_of dict_map k of None \<Rightarrow> Inl KeyError | Some v \<Rightarrow> Inr v)"

text \<open>
  The five keys the rules read are literals of the notebooks, all present in \<open>dict_map\<close>;
  \<open>code_of\<close> is the lookup at such a key.
\<close>

definition code_of :: "string \<Rightarrow> nat" where
  "code_of k = (case dict_get k of Inr v \<Rightarrow> v | Inl _ \<Rightarrow> 0)"

definition class_codes :: "nat list" where
  "class_codes = map snd dict_map"

section \<open>Library operations\<close>

text \<open>
  \<open>skimage.morphology.disk(k)\<close>: the offsets \<open>(dr, dc)\<close> of the square of side
  \<open>2k + 1\<close> with \<open>dr\<^sup>2 + dc\<^sup>2 \<le> k\<^sup>2\<close>.
\<close>

definition disk :: "int \<Rightarrow> (int \<times> int) list" where
  "disk k = [(dr, dc). dr \<leftarrow> [- k..k], dc \<leftarrow> [- k..k], dr * dr + dc * dc \<le> k * k]"

text \<open>The cells of an \<open>nr \<times> nc\<close> array that a footprint centred at \<open>(r, c)\<close> covers.\<close>

definition window :: "(int \<times> int) list \<Rightarrow> nat \<Rightarrow> nat \<Rightarrow> nat \<Rightarrow> nat \<Rightarrow> (nat \<times> nat) list" where
  "window footprint nr nc r c =
     [(nat (int r + dr), nat (int c + dc)). (dr, dc) \<leftarrow> footprint,
        0 \<le> int r + dr, int r + dr < int nr, 0 \<le> int c + dc, int c + dc < int nc]"

text \<open>
  \<open>skimage.filters.rank.modal(image, footprint, mask)\<close>. For every cell of the image the
  filter builds the histogram of the values of the cells that lie under the footprint,
  inside the image and inside the mask, and writes the bin with the highest count, the
  lowest such bin in a tie (the scan over the bins keeps the first strict maximum), and 0
  when the histogram is empty. The mask selects the cells that vote; the filter writes
  every cell, whether in the mask or not.
\<close>

definition n_bins :: "nat raster \<Rightarrow> nat" where
  "n_bins img = Suc (fold max (concat img) 0)"

definition scan_bins :: "nat list \<Rightarrow> nat \<Rightarrow> nat \<times> nat" where
  "scan_bins vs n =
     fold (\<lambda>i (hmax, imax).
             if count_list vs i > hmax then (count_list vs i, i) else (hmax, imax))
          [0..<n] (0, 0)"

definition kernel_modal :: "nat \<Rightarrow> nat list \<Rightarrow> nat" where
  "kernel_modal n vs = (if vs = [] then 0 else snd (scan_bins vs n))"

definition neighbourhood :: "nat raster \<Rightarrow> (int \<times> int) list \<Rightarrow> (nat \<Rightarrow> nat \<Rightarrow> bool) \<Rightarrow> nat \<Rightarrow> nat \<Rightarrow> nat list" where
  "neighbourhood img footprint msk r c =
     [cell img r' c'. (r', c') \<leftarrow> window footprint (nrows img) (ncols img) r c, msk r' c']"

definition modal :: "nat raster \<Rightarrow> (int \<times> int) list \<Rightarrow> (nat \<Rightarrow> nat \<Rightarrow> bool) \<Rightarrow> nat raster" where
  "modal img footprint msk =
     tabulate2 (nrows img) (ncols img)
       (\<lambda>r c. kernel_modal (n_bins img) (neighbourhood img footprint msk r c))"

text \<open>
  \<open>skimage.morphology.binary_dilation(image, footprint)\<close>: a cell is set when a set cell
  of the image lies under the footprint centred at it; outside the image nothing is set.
\<close>

definition binary_dilation :: "(nat \<Rightarrow> nat \<Rightarrow> bool) \<Rightarrow> nat \<Rightarrow> nat \<Rightarrow> (int \<times> int) list \<Rightarrow> nat \<Rightarrow> nat \<Rightarrow> bool" where
  "binary_dilation img nr nc footprint r c =
     list_ex (\<lambda>(r', c'). img r' c') (window footprint nr nc r c)"

section \<open>External layers\<close>

text \<open>
  A feature of the OSM road network layer, as \<open>gpd.read_file(road_network_shp)\<close> returns
  it: its \<open>surface\<close> attribute (which may be missing) and its geometry. The geometry is
  only buffered by 10 m and rasterised, both by library calls, so a feature carries the
  cells of the target grid that the rasteriser burns for its buffered geometry.
\<close>

record road =
  surface :: "string option"
  buffered_cells :: "(nat \<times> nat) list"

definition road_surfaces :: "string list" where
  "road_surfaces =
     [''asphalt'', ''paved'', ''compacted'', ''cobblestone'', ''concrete'', ''metal'',
      ''paving_stones'', ''paving_stones:30'']"

text \<open>\<open>road_network.loc[road_network['surface'].isin([...])]\<close>\<close>

definition select_roads :: "road list \<Rightarrow> road list" where
  "select_roads gdf =
     filter (\<lambda>rd. case surface rd of None \<Rightarrow> False | Some s \<Rightarrow> s \<in> set road_surfaces) gdf"

text \<open>\<open>xr_rasterize\<close>: 1 in the cells burnt for some feature of the layer, 0 elsewhere.\<close>

definition xr_rasterize :: "road list \<Rightarrow> nat \<Rightarrow> nat \<Rightarrow> nat raster" where
  "xr_rasterize gdf nr nc =
     tabulate2 nr nc (\<lambda>r c. if list_ex (\<lambda>rd. (r, c) \<in> set (buffered_cells rd)) gdf then 1 else 0)"

text \<open>
  What one run of the post-processing reads: the prediction map, the layers resampled onto
  its geobox, the rasterised river network and buffered coastline, and the road network
  as read from the shapefile.
\<close>

record inputs =
  np_lc_map :: "nat raster"
  np_hand :: "float64 raster"
  np_river_network_mask :: "nat raster"
  np_MNDWI :: "float64 raster"
  np_google_buildings_mask :: "float64 raster"
  np_wsf2019 :: "nat raster"
  road_network_shp :: "road list"
  np_shorelines_2021_mask :: "nat raster"

definition np_road_network_mask :: "inputs \<Rightarrow> nat raster" where
  "np_road_network_mask inp =
     xr_rasterize (select_roads (road_network_shp inp))
       (nrows (np_lc_map inp)) (ncols (np_lc_map inp))"

section \<open>Post-processing\<close>

text \<open>\<open>modal(np_lc_map, footprint=disk(2), mask=np_lc_map!=0)\<close>\<close>

definition majority_filter :: "inputs \<Rightarrow> nat raster" where
  "majority_filter inp =
     modal (np_lc_map inp) (disk 2) (\<lambda>r c. cell (np_lc_map inp) r c \<noteq> 0)"

text \<open>The condition of each rule at a cell, as the notebooks write it.\<close>

definition cond_hydrology :: "inputs \<Rightarrow> nat \<Rightarrow> nat \<Rightarrow> bool" where
  "cond_hydrology inp r c =
     ((cell (np_lc_map inp) r c = code_of ''Water body'' \<and> f_le (cell (np_hand inp) r c) 45)
      \<or> cell (np_river_network_mask inp) r c = 1)"

definition cond_index :: "inputs \<Rightarrow> nat \<Rightarrow> nat \<Rightarrow> bool" where
  "cond_index inp r c = f_ge (cell (np_MNDWI inp) r c) 0"

definition cond_footprint :: "nat \<Rightarrow> inputs \<Rightarrow> nat \<Rightarrow> nat \<Rightarrow> bool" where
  "cond_footprint built inp r c =
     (f_eq (cell (np_google_buildings_mask inp) r c) 1 \<or> cell (np_wsf2019 inp) r c = built)"

definition cond_road :: "inputs \<Rightarrow> nat \<Rightarrow> nat \<Rightarrow> bool" where
  "cond_road inp r c = (cell (np_road_network_mask inp) r c = 1)"

definition urban_buffered :: "inputs \<Rightarrow> nat \<Rightarrow> nat \<Rightarrow> bool" where
  "urban_buffered inp =
     binary_dilation (\<lambda>r c. cell (np_lc_map inp) r c = code_of ''Settlements'')
       (nrows (np_lc_map inp)) (ncols (np_lc_map inp)) (disk 5)"

definition cond_flooded :: "inputs \<Rightarrow> nat \<Rightarrow> nat \<Rightarrow> bool" where
  "cond_flooded inp r c =
     (urban_buffered inp r c \<and>
      cell (np_lc_map inp) r c = code_of ''Aquatic or regularly flooded herbaceous vegetation'')"

definition cond_mangrove :: "inputs \<Rightarrow> nat \<Rightarrow> nat \<Rightarrow> bool" where
  "cond_mangrove inp r c =
     (cell (np_shorelines_2021_mask inp) r c = 0 \<and> cell (np_lc_map inp) r c = code_of ''Mangrove'')"

text \<open>The rules, each an assignment into the working array \<open>np_lc_map_postproc\<close>.\<close>

definition rule_hydrology :: "inputs \<Rightarrow> nat raster \<Rightarrow> nat raster" where
  "rule_hydrology inp b = assign_where b (cond_hydrology inp) (code_of ''Water body'')"

definition rule_index :: "inputs \<Rightarrow> nat raster \<Rightarrow> nat raster" where
  "rule_index inp b = assign_where b (cond_index inp) (code_of ''Water body'')"

definition rule_footprint :: "nat \<Rightarrow> inputs \<Rightarrow> nat raster \<Rightarrow> nat raster" where
  "rule_footprint built inp b = assign_where b (cond_footprint built inp) (code_of ''Settlements'')"

definition rule_road :: "inputs \<Rightarrow> nat raster \<Rightarrow> nat raster" where
  "rule_road inp b = assign_where b (cond_road inp) (code_of ''Settlements'')"

definition rule_flooded :: "inputs \<Rightarrow> nat raster \<Rightarrow> nat raster" where
  "rule_flooded inp b = assign_where b (cond_flooded inp) (code_of ''Field crops'')"

definition rule_mangrove :: "inputs \<Rightarrow> nat raster \<Rightarrow> nat raster" where
  "rule_mangrove inp b = assign_where b (cond_mangrove inp) (code_of ''Forest plantations'')"

text \<open>
  A boolean index must have the shape of the array it indexes, or numpy raises IndexError.
  The layers are resampled or rasterised onto the geobox of the prediction map, so in a
  run that reaches the end every layer has the shape of \<open>np_lc_map\<close>.
\<close>

definition aligned :: "inputs \<Rightarrow> bool" where
  "aligned inp =
     (let nr = nrows (np_lc_map inp); nc = ncols (np_lc_map inp) in
      has_shape (np_lc_map inp) nr nc \<and> has_shape (np_hand inp) nr nc \<and>
      has_shape (np_river_network_mask inp) nr nc \<and> has_shape (np_MNDWI inp) nr nc \<and>
      has_shape (np_google_buildings_mask inp) nr nc \<and> has_shape (np_wsf2019 inp) nr nc \<and>
      has_shape (np_shorelines_2021_mask inp) nr nc)"

text \<open>
  The step-by-step cells of notebook 4, run on the first prediction map: the successive
  values of \<open>np_lc_map_postproc\<close>. Entry 0 is the array after the filter (Step 1) and
  entry \<open>k\<close> the array after Step \<open>k + 1\<close>: hydrology, water index, footprints, road,
  flooded vegetation, mangrove. The settlement footprint is tested against 255.
\<close>

definition steps_trace :: "inputs \<Rightarrow> nat raster list" where
  "steps_trace inp =
     (let b1 = majority_filter inp;
          b2 = rule_hydrology inp b1;
          b3 = rule_index inp b2;
          b4 = rule_footprint 255 inp b3;
          b5 = rule_road inp b4;
          b6 = rule_flooded inp b5;
          b7 = rule_mangrove inp b6
      in [b1, b2, b3, b4, b5, b6, b7])"

text \<open>
  The body of the loop over all testing locations of notebook 4, which is also the cell
  of notebook 5 that processes the entire district: the settlement footprint is tested
  against 1 and the flooded-vegetation rule runs before the road rule, so entry 4 is the
  array after the flooded-vegetation rule and entry 5 the array after the road rule.
\<close>

definition loop_trace :: "inputs \<Rightarrow> nat raster list" where
  "loop_trace inp =
     (let b1 = majority_filter inp;
          b2 = rule_hydrology inp b1;
          b3 = rule_index inp b2;
          b4 = rule_footprint 1 inp b3;
          b5 = rule_flooded inp b4;
          b6 = rule_road inp b5;
          b7 = rule_mangrove inp b6
      in [b1, b2, b3, b4, b5, b6, b7])"

definition postproc_steps :: "inputs \<Rightarrow> error + nat raster" where
  "postproc_steps inp = (if aligned inp then Inr (last (steps_trace inp)) else Inl IndexError)"

definition postproc_loop :: "inputs \<Rightarrow> error + nat raster" where
  "postproc_loop inp = (if aligned inp then Inr (last (loop_trace inp)) else Inl IndexError)"

text \<open>
  The step-by-step cells with the last two rules exchanged (the mangrove rule before the
  flooded-vegetation rule). No notebook runs this order; it is the order that the
  order-sensitivity property compares with.
\<close>

definition postproc_swapped :: "inputs \<Rightarrow> error + nat raster" where
  "postproc_swapped inp =
     (if aligned inp
      then Inr (rule_flooded inp (rule_mangrove inp (steps_trace inp ! 4)))
      else Inl IndexError)"

section \<open>Fixtures\<close>

text \<open>Small inputs on which the theorems below are instantiated.\<close>

definition fx8 :: inputs where
  "fx8 = \<lparr>np_lc_map = [[44, 0, 44], [44, 44, 0], [0, 44, 12]],
          np_hand = [[Num 50, Num 50, Num 50], [Num 50, Num 50, Num 50], [Num 50, Num 50, Num 50]],
          np_river_network_mask = [[0, 0, 0], [0, 0, 0], [0, 0, 0]],
          np_MNDWI = [[Num (- 0.2), Num (- 0.2), Num (- 0.2)], [Num (- 0.2), Num (- 0.2), Num (- 0.2)], [Num (- 0.2), Num (- 0.2), Num (- 0.2)]],
          np_google_buildings_mask = [[Num 0, Num 0, Num 0], [Num 0, Num 0, Num 0], [Num 0, Num 0, Num 0]],
          np_wsf2019 = [[0, 0, 0], [0, 0, 0], [0, 0, 0]],
          road_network_shp = [],
          np_shorelines_2021_mask = [[1, 1, 1], [1, 1, 1], [1, 1, 1]]\<rparr>"

definition fx8_uniform :: inputs where
  "fx8_uniform = fx8\<lparr>np_lc_map := [[44, 44, 44], [44, 44, 44], [44, 44, 44]]\<rparr>"

definition fx5 :: inputs where
  "fx5 = \<lparr>np_lc_map = [[12, 44, 12]],
          np_hand = [[Num 50, Num 50, Num 50]],
          np_river_network_mask = [[0, 0, 0]],
          np_MNDWI = [[Num (- 0.2), Num 0.3, Num (- 0.2)]],
          np_google_buildings_mask = [[Num 0, Num 0, Num 0]],
          np_wsf2019 = [[0, 0, 0]],
          road_network_shp = [],
          np_shorelines_2021_mask = [[1, 1, 1]]\<rparr>"

definition fx6 :: inputs where
  "fx6 = \<lparr>np_lc_map =
           [[74, 74, 74, 74, 74],
            [74, 74, 74, 74, 74],
            [74, 74, 70, 74, 74],
            [74, 74, 74, 74, 74],
            [74, 74, 74, 74, 74]],
          np_hand =
           [[Num 50, Num 50, Num 50, Num 50, Num 50],
            [Num 50, Num 50, Num 50, Num 50, Num 50],
            [Num 50, Num 50, Num 50, Num 50, Num 50],
            [Num 50, Num 50, Num 50, Num 50, Num 50],
            [Num 50, Num 50, Num 50, Num 50, Num 50]],
          np_river_network_mask =
           [[0, 0, 0, 0, 0],
            [0, 0, 0, 0, 0],
            [0, 0, 0, 0, 0],
            [0, 0, 0, 0, 0],
            [0, 0, 0, 0, 0]],
          np_MNDWI =
           [[Num (- 0.2), Num (- 0.2), Num (- 0.2), Num (- 0.2), Num (- 0.2)],
            [Num (- 0.2), Num (- 0.2), Num (- 0.2), Num (- 0.2), Num (- 0.2)],
            [Num (- 0.2), Num (- 0.2), Num (- 0.2), Num (- 0.2), Num (- 0.2)],
            [Num (- 0.2), Num (- 0.2), Num (- 0.2), Num (- 0.2), Num (- 0.2)],
            [Num (- 0.2), Num (- 0.2), Num (- 0.2), Num (- 0.2), Num (- 0.2)]],
          np_google_buildings_mask =
           [[Num 0, Num 0, Num 0, Num 0, Num 0],
            [Num 0, Num 0, Num 0, Num 0, Num 0],
            [Num 0, Num 0, Num 0, Num 0, Num 0],
            [Num 0, Num 0, Num 0, Num 0, Num 0],
            [Num 0, Num 0, Num 0, Num 0, Num 0]],
          np_wsf2019 =
           [[0, 0, 0, 0, 0],
            [0, 0, 0, 0, 0],
            [0, 0, 0, 0, 0],
            [0, 0, 0, 0, 0],
            [0, 0, 0, 0, 0]],
          road_network_shp = [],
          np_shorelines_2021_mask =
           [[0, 0, 0, 0, 0],
            [0, 0, 0, 0, 0],
            [0, 0, 0, 0, 0],
            [0, 0, 0, 0, 0],
            [0, 0, 0, 0, 0]]\<rparr>"

definition fx10 :: inputs where
  "fx10 = \<lparr>np_lc_map = [[70, 12, 70, 41, 51]],
          np_hand = [[Num 50, Num 50, Num 50, Num 50, Num 50]],
          np_river_network_mask = [[0, 0, 0, 0, 0]],
          np_MNDWI = [[Num (- 0.2), Num (- 0.2), Num (- 0.2), Num (- 0.2), Num (- 0.2)]],
          np_google_buildings_mask = [[Num 0, Num 0, Num 0, Num 0, Num 0]],
          np_wsf2019 = [[0, 0, 0, 0, 0]],
          road_network_shp = [\<lparr>surface = Some ''asphalt'', buffered_cells = [(0, 3)]\<rparr>],
          np_shorelines_2021_mask = [[0, 0, 0, 0, 0]]\<rparr>"

definition fx10_seed :: inputs where
  "fx10_seed = \<lparr>np_lc_map = [[41, 41, 41, 70]],
          np_hand = [[Num 50, Num 50, Num 50, Num 50]],
          np_river_network_mask = [[0, 0, 0, 0]],
          np_MNDWI = [[Num (- 0.2), Num (- 0.2), Num (- 0.2), Num (- 0.2)]],
          np_google_buildings_mask = [[Num 0, Num 0, Num 0, Num 0]],
          np_wsf2019 = [[0, 0, 255, 0]],
          road_network_shp = [],
          np_shorelines_2021_mask = [[0, 0, 0, 1]]\<rparr>"

definition fx7 :: inputs where
  "fx7 = \<lparr>np_lc_map = [[12, 12, 12]],
          np_hand = [[Num 50, Num 50, Num 50]],
          np_river_network_mask = [[0, 0, 0]],
          np_MNDWI = [[Num (- 0.2), Num (- 0.2), Num (- 0.2)]],
          np_google_buildings_mask = [[Num 0, Num 0, Num 0]],
          np_wsf2019 = [[0, 0, 0]],
          road_network_shp = [\<lparr>surface = Some ''dirt'', buffered_cells = [(0, 0)]\<rparr>,
                              \<lparr>surface = None, buffered_cells = [(0, 1)]\<rparr>,
                              \<lparr>surface = Some ''asphalt'', buffered_cells = [(0, 2)]\<rparr>],
          np_shorelines_2021_mask = [[1, 1, 1]]\<rparr>"

definition fx1_index :: inputs where
  "fx1_index = \<lparr>np_lc_map = [[0]], np_hand = [[Num 50]], np_river_network_mask = [[0]],
          np_MNDWI = [[Num 0.3]], np_google_buildings_mask = [[Num 0]], np_wsf2019 = [[0]],
          road_network_shp = [], np_shorelines_2021_mask = [[1]]\<rparr>"

definition fx1_filter :: inputs where
  "fx1_filter = \<lparr>np_lc_map = [[0, 44]], np_hand = [[Num 50, Num 50]],
          np_river_network_mask = [[0, 0]],
          np_MNDWI = [[Num (- 0.2), Num (- 0.2)]],
          np_google_buildings_mask = [[Num 0, Num 0]], np_wsf2019 = [[0, 0]],
          road_network_shp = [], np_shorelines_2021_mask = [[1, 1]]\<rparr>"

definition fx1_nodata :: inputs where
  "fx1_nodata = \<lparr>np_lc_map = [[0, 0, 0, 12]], np_hand = [[Num 50, Num 50, Num 50, Num 50]],
          np_river_network_mask = [[0, 0, 0, 0]],
          np_MNDWI = [[Num (- 0.2), NaN, Num (- 0.2), Num (- 0.2)]],
          np_google_buildings_mask = [[Num 0, Num 0, Num 0, Num 0]], np_wsf2019 = [[0, 0, 0, 0]],
          road_network_shp = [], np_shorelines_2021_mask = [[0, 0, 0, 0]]\<rparr>"

definition fx2 :: inputs where
  "fx2 = \<lparr>np_lc_map = [[44, 44, 44]], np_hand = [[Num 10, Num 10, Num 10]],
          np_river_network_mask = [[0, 0, 0]],
          np_MNDWI = [[Num (- 0.2), Num (- 0.2), Num (- 0.2)]],
          np_google_buildings_mask = [[Num 1, Num 0, Num 0]],
          np_wsf2019 = [[0, 0, 0]],
          road_network_shp = [], np_shorelines_2021_mask = [[1, 1, 1]]\<rparr>"

definition fx3 :: inputs where
  "fx3 = \<lparr>np_lc_map = [[12, 12, 12, 41, 51]],
          np_hand = [[Num 50, Num 50, Num 50, Num 50, Num 50]],
          np_river_network_mask = [[0, 0, 0, 0, 0]],
          np_MNDWI = [[Num (- 0.2), Num (- 0.2), Num (- 0.2), Num (- 0.2), Num (- 0.2)]],
          np_google_buildings_mask = [[Num 0, Num 0, Num 0, Num 0, Num 0]],
          np_wsf2019 = [[255, 0, 0, 0, 0]],
          road_network_shp = [\<lparr>surface = Some ''asphalt'', buffered_cells = [(0, 3)]\<rparr>],
          np_shorelines_2021_mask = [[1, 1, 1, 1, 1]]\<rparr>"

section \<open>Basic facts\<close>

lemma cell_tabulate2: "r < nr \<Longrightarrow> c < nc \<Longrightarrow> cell (tabulate2 nr nc f) r c = f r c"
  by (simp add: cell_def tabulate2_def)

lemma nrows_tabulate2: "nrows (tabulate2 nr nc f) = nr"
  by (simp add: nrows_def tabulate2_def)

lemma ncols_tabulate2: "0 < nr \<Longrightarrow> ncols (tabulate2 nr nc f) = nc"
  by (cases nr) (simp_all add: ncols_def tabulate2_def upt_conv_Cons del: upt_Suc)

lemma nrows_assign_where: "nrows (assign_where a cond v) = nrows a"
  by (simp add: assign_where_def nrows_tabulate2)

lemma ncols_assign_where: "ncols (assign_where a cond v) = ncols a"
proof (cases "nrows a")
  case 0
  then show ?thesis by (simp add: assign_where_def tabulate2_def nrows_def ncols_def)
next
  case (Suc n)
  then show ?thesis by (simp add: assign_where_def ncols_tabulate2)
qed

lemma cell_assign_where:
  "r < nrows a \<Longrightarrow> c < ncols a \<Longrightarrow>
   cell (assign_where a cond v) r c = (if cond r c then v else cell a r c)"
  by (simp add: assign_where_def cell_tabulate2)

lemma code_water: "code_of ''Water body'' = 44"
  by (simp add: code_of_def dict_get_def dict_map_def)

lemma code_settlements: "code_of ''Settlements'' = 51"
  by (simp add: code_of_def dict_get_def dict_map_def)

lemma code_field_crops: "code_of ''Field crops'' = 12"
  by (simp add: code_of_def dict_get_def dict_map_def)

lemma code_forest_plantations: "code_of ''Forest plantations'' = 21"
  by (simp add: code_of_def dict_get_def dict_map_def)

lemma code_flooded: "code_of ''Aquatic or regularly flooded herbaceous vegetation'' = 41"
  by (simp add: code_of_def dict_get_def dict_map_def)

lemma code_mangrove: "code_of ''Mangrove'' = 70"
  by (simp add: code_of_def dict_get_def dict_map_def)

lemma nrows_modal: "nrows (modal img fp m) = nrows img"
  by (simp add: modal_def nrows_tabulate2)

lemma ncols_modal: "ncols (modal img fp m) = ncols img"
proof (cases "nrows img")
  case 0
  then show ?thesis by (simp add: modal_def tabulate2_def nrows_def ncols_def)
next
  case (Suc n)
  then show ?thesis by (simp add: modal_def ncols_tabulate2)
qed

lemma shape_majority_filter:
  "nrows (majority_filter inp) = nrows (np_lc_map inp)"
  "ncols (majority_filter inp) = ncols (np_lc_map inp)"
  by (simp_all add: majority_filter_def nrows_modal ncols_modal)

lemmas rule_defs = rule_hydrology_def rule_index_def rule_footprint_def rule_road_def
  rule_flooded_def rule_mangrove_def

lemma shape_rules:
  "nrows (rule_hydrology inp b) = nrows b" "ncols (rule_hydrology inp b) = ncols b"
  "nrows (rule_index inp b) = nrows b" "ncols (rule_index inp b) = ncols b"
  "nrows (rule_footprint k inp b) = nrows b" "ncols (rule_footprint k inp b) = ncols b"
  "nrows (rule_road inp b) = nrows b" "ncols (rule_road inp b) = ncols b"
  "nrows (rule_flooded inp b) = nrows b" "ncols (rule_flooded inp b) = ncols b"
  "nrows (rule_mangrove inp b) = nrows b" "ncols (rule_mangrove inp b) = ncols b"
  by (simp_all add: rule_defs nrows_assign_where ncols_assign_where)

lemma cell_rules:
  assumes "r < nrows b" "c < ncols b"
  shows "cell (rule_hydrology inp b) r c = (if cond_hydrology inp r c then 44 else cell b r c)"
    and "cell (rule_index inp b) r c = (if cond_index inp r c then 44 else cell b r c)"
    and "cell (rule_footprint k inp b) r c = (if cond_footprint k inp r c then 51 else cell b r c)"
    and "cell (rule_road inp b) r c = (if cond_road inp r c then 51 else cell b r c)"
    and "cell (rule_flooded inp b) r c = (if cond_flooded inp r c then 12 else cell b r c)"
    and "cell (rule_mangrove inp b) r c = (if cond_mangrove inp r c then 21 else cell b r c)"
  using assms
  by (simp_all add: rule_defs cell_assign_where code_water code_settlements code_field_crops
      code_forest_plantations)

section \<open>The majority filter\<close>

lemma fold_max_ge: "a \<le> fold max xs (a::nat)"
proof (induction xs arbitrary: a)
  case Nil
  then show ?case by simp
next
  case (Cons x xs)
  have "a \<le> max x a" by simp
  also have "\<dots> \<le> fold max xs (max x a)" by (rule Cons.IH)
  finally show ?case by simp
qed

lemma fold_max_upper: "x \<in> set xs \<Longrightarrow> x \<le> fold max xs (a::nat)"
proof (induction xs arbitrary: a)
  case Nil
  then show ?case by simp
next
  case (Cons y ys)
  show ?case
  proof (cases "x = y")
    case True
    have "y \<le> max y a" by simp
    also have "\<dots> \<le> fold max ys (max y a)" by (rule fold_max_ge)
    finally show ?thesis using True by simp
  next
    case False
    with Cons.prems have "x \<in> set ys" by simp
    then show ?thesis using Cons.IH by simp
  qed
qed

lemma cell_in_concat:
  assumes "has_shape g (nrows g) (ncols g)" "r < nrows g" "c < ncols g"
  shows "cell g r c \<in> set (concat g)"
proof -
  from assms(2) have r: "r < length g" by (simp add: nrows_def)
  then have mem: "g ! r \<in> set g" by simp
  with assms(1) have "length (g ! r) = ncols g"
    by (simp add: has_shape_def list_all_iff)
  with assms(3) have "g ! r ! c \<in> set (g ! r)" by simp
  with mem show ?thesis by (auto simp: cell_def)
qed

lemma cell_less_n_bins:
  assumes "has_shape g (nrows g) (ncols g)" "r < nrows g" "c < ncols g"
  shows "cell g r c < n_bins g"
  using fold_max_upper [OF cell_in_concat [OF assms], of 0] by (simp add: n_bins_def)

lemma scan_Suc:
  "scan_bins vs (Suc m) = (case scan_bins vs m of (hmax, imax) \<Rightarrow>
      if count_list vs m > hmax then (count_list vs m, m) else (hmax, imax))"
  by (simp add: scan_bins_def)

lemma scan_0: "scan_bins vs 0 = (0, 0)"
  by (simp add: scan_bins_def)

lemma count_list_all_same: "\<forall>x \<in> set xs. x = v \<Longrightarrow> count_list xs v = length xs"
  by (induction xs) simp_all

lemma scan_uniform:
  assumes "vs \<noteq> []" "\<forall>x \<in> set vs. x = v"
  shows "scan_bins vs m = (if v < m then (length vs, v) else (0, 0))"
proof -
  have cnt: "count_list vs i = (if i = v then length vs else 0)" for i
  proof (cases "i = v")
    case True
    have "count_list vs v = length vs" by (rule count_list_all_same [OF assms(2)])
    then show ?thesis using True by simp
  next
    case False
    with assms(2) have "i \<notin> set vs" by auto
    then show ?thesis using False by (simp add: count_list_0_iff)
  qed
  from assms(1) have pos: "0 < length vs" by simp
  show ?thesis
  proof (induction m)
    case 0
    then show ?case by (simp add: scan_0)
  next
    case (Suc m)
    then show ?case using pos by (auto simp: scan_Suc cnt)
  qed
qed

lemma kernel_modal_uniform:
  "vs \<noteq> [] \<Longrightarrow> \<forall>x \<in> set vs. x = v \<Longrightarrow> v < n \<Longrightarrow> kernel_modal n vs = v"
  by (simp add: kernel_modal_def scan_uniform)

lemma scan_invariant:
  "(case scan_bins vs m of (hmax, imax) \<Rightarrow>
      (hmax = 0 \<and> imax = 0) \<or> (0 < hmax \<and> count_list vs imax = hmax))"
proof (induction m)
  case 0
  then show ?case by (simp add: scan_0)
next
  case (Suc m)
  then show ?case by (auto simp: scan_Suc split: prod.splits)
qed

lemma kernel_modal_member: "kernel_modal n vs = 0 \<or> kernel_modal n vs \<in> set vs"
proof (cases "vs = []")
  case True
  then show ?thesis by (simp add: kernel_modal_def)
next
  case False
  obtain h i where hi: "scan_bins vs n = (h, i)" by (cases "scan_bins vs n")
  with scan_invariant [of vs n] have "(h = 0 \<and> i = 0) \<or> (0 < h \<and> count_list vs i = h)"
    by simp
  then have "i = 0 \<or> i \<in> set vs"
    using count_list_0_iff [of vs i] by auto
  with hi False show ?thesis by (simp add: kernel_modal_def)
qed

lemma disk_member: "(dr, dc) \<in> set (disk k) \<longleftrightarrow>
    - k \<le> dr \<and> dr \<le> k \<and> - k \<le> dc \<and> dc \<le> k \<and> dr * dr + dc * dc \<le> k * k"
  by (auto simp: disk_def)

lemma window_member:
  "(r', c') \<in> set (window fp nr nc r c) \<longleftrightarrow>
     r' < nr \<and> c' < nc \<and> (int r' - int r, int c' - int c) \<in> set fp"
proof
  assume "(r', c') \<in> set (window fp nr nc r c)"
  then obtain dr dc where d: "(dr, dc) \<in> set fp" "0 \<le> int r + dr" "int r + dr < int nr"
      "0 \<le> int c + dc" "int c + dc < int nc" "r' = nat (int r + dr)" "c' = nat (int c + dc)"
    by (auto simp: window_def)
  then have "int r' - int r = dr" "int c' - int c = dc" "r' < nr" "c' < nc" by auto
  with d(1) show "r' < nr \<and> c' < nc \<and> (int r' - int r, int c' - int c) \<in> set fp" by simp
next
  assume a: "r' < nr \<and> c' < nc \<and> (int r' - int r, int c' - int c) \<in> set fp"
  let ?dr = "int r' - int r" and ?dc = "int c' - int c"
  have "(nat (int r + ?dr), nat (int c + ?dc)) \<in> set (window fp nr nc r c)"
    unfolding window_def using a by force
  then show "(r', c') \<in> set (window fp nr nc r c)" by simp
qed

lemma neighbourhood_member:
  "x \<in> set (neighbourhood img fp m r c) \<longleftrightarrow>
     (\<exists>r' c'. (r', c') \<in> set (window fp (nrows img) (ncols img) r c) \<and> m r' c' \<and> x = cell img r' c')"
  by (auto simp: neighbourhood_def)

lemma cell_modal:
  "r < nrows img \<Longrightarrow> c < ncols img \<Longrightarrow>
   cell (modal img fp m) r c = kernel_modal (n_bins img) (neighbourhood img fp m r c)"
  by (simp add: modal_def cell_tabulate2)

lemma modal_uniform:
  assumes shape: "has_shape img (nrows img) (ncols img)"
    and r: "r < nrows img" and c: "c < ncols img"
    and v: "cell img r c \<noteq> 0"
    and centre: "(0, 0) \<in> set fp"
    and same: "\<forall>(r', c') \<in> set (window fp (nrows img) (ncols img) r c).
                 cell img r' c' \<noteq> 0 \<longrightarrow> cell img r' c' = cell img r c"
  shows "cell (modal img fp (\<lambda>r c. cell img r c \<noteq> 0)) r c = cell img r c"
proof -
  let ?vs = "neighbourhood img fp (\<lambda>r c. cell img r c \<noteq> 0) r c"
  have "(r, c) \<in> set (window fp (nrows img) (ncols img) r c)"
    using r c centre by (simp add: window_member)
  with v have "cell img r c \<in> set ?vs" by (auto simp: neighbourhood_member)
  then have ne: "?vs \<noteq> []" by auto
  have all: "\<forall>x \<in> set ?vs. x = cell img r c"
    using same by (auto simp: neighbourhood_member)
  have "kernel_modal (n_bins img) ?vs = cell img r c"
    by (rule kernel_modal_uniform [OF ne all cell_less_n_bins [OF shape r c]])
  then show ?thesis using r c by (simp add: cell_modal)
qed

lemma tabulate2_cell:
  assumes "has_shape g (nrows g) (ncols g)"
  shows "tabulate2 (nrows g) (ncols g) (cell g) = g"
proof (rule nth_equalityI)
  show "length (tabulate2 (nrows g) (ncols g) (cell g)) = length g"
    by (simp add: tabulate2_def nrows_def)
next
  fix i assume "i < length (tabulate2 (nrows g) (ncols g) (cell g))"
  then have i: "i < length g" by (simp add: tabulate2_def nrows_def)
  then have "g ! i \<in> set g" by simp
  with assms have len: "length (g ! i) = ncols g" by (simp add: has_shape_def list_all_iff)
  have "map (\<lambda>c. g ! i ! c) [0..<ncols g] = g ! i"
    using map_nth [of "g ! i"] len by simp
  then show "tabulate2 (nrows g) (ncols g) (cell g) ! i = g ! i"
    using i by (simp add: tabulate2_def nrows_def cell_def)
qed

lemma raster_eqI:
  assumes "has_shape a (nrows a) (ncols a)" "has_shape b (nrows b) (ncols b)"
    "nrows a = nrows b" "ncols a = ncols b"
    "\<And>r c. r < nrows a \<Longrightarrow> c < ncols a \<Longrightarrow> cell a r c = cell b r c"
  shows "a = b"
proof -
  have "tabulate2 (nrows a) (ncols a) (cell a) = tabulate2 (nrows b) (ncols b) (cell b)"
    using assms(3,4,5) by (simp add: tabulate2_def)
  then show ?thesis using assms(1,2) by (simp add: tabulate2_cell)
qed

lemma has_shape_tabulate2: "has_shape (tabulate2 nr nc f) nr nc"
  by (simp add: has_shape_def tabulate2_def list_all_iff)


lemma has_shape_majority_filter:
  "has_shape (majority_filter inp) (nrows (majority_filter inp)) (ncols (majority_filter inp))"
proof -
  have "has_shape (majority_filter inp) (nrows (np_lc_map inp)) (ncols (np_lc_map inp))"
    by (simp add: majority_filter_def modal_def has_shape_tabulate2)
  then show ?thesis by (simp add: shape_majority_filter)
qed

lemma aligned_lc_shape:
  "aligned inp \<Longrightarrow> has_shape (np_lc_map inp) (nrows (np_lc_map inp)) (ncols (np_lc_map inp))"
  by (simp add: aligned_def Let_def)

section \<open>The two code paths, step by step\<close>

lemma steps_trace_nth:
  "steps_trace inp ! 0 = majority_filter inp"
  "steps_trace inp ! 1 = rule_hydrology inp (steps_trace inp ! 0)"
  "steps_trace inp ! 2 = rule_index inp (steps_trace inp ! 1)"
  "steps_trace inp ! 3 = rule_footprint 255 inp (steps_trace inp ! 2)"
  "steps_trace inp ! 4 = rule_road inp (steps_trace inp ! 3)"
  "steps_trace inp ! 5 = rule_flooded inp (steps_trace inp ! 4)"
  "steps_trace inp ! 6 = rule_mangrove inp (steps_trace inp ! 5)"
  "last (steps_trace inp) = steps_trace inp ! 6"
  "steps_trace inp ! Suc 0 = rule_hydrology inp (steps_trace inp ! 0)"
  by (simp_all add: steps_trace_def Let_def)

lemma loop_trace_nth:
  "loop_trace inp ! 0 = majority_filter inp"
  "loop_trace inp ! 1 = rule_hydrology inp (loop_trace inp ! 0)"
  "loop_trace inp ! 2 = rule_index inp (loop_trace inp ! 1)"
  "loop_trace inp ! 3 = rule_footprint 1 inp (loop_trace inp ! 2)"
  "loop_trace inp ! 4 = rule_flooded inp (loop_trace inp ! 3)"
  "loop_trace inp ! 5 = rule_road inp (loop_trace inp ! 4)"
  "loop_trace inp ! 6 = rule_mangrove inp (loop_trace inp ! 5)"
  "last (loop_trace inp) = loop_trace inp ! 6"
  "loop_trace inp ! Suc 0 = rule_hydrology inp (loop_trace inp ! 0)"
  by (simp_all add: loop_trace_def Let_def)

lemma set_steps_trace:
  "set (steps_trace inp) = {steps_trace inp ! 0, steps_trace inp ! 1, steps_trace inp ! 2,
     steps_trace inp ! 3, steps_trace inp ! 4, steps_trace inp ! 5, steps_trace inp ! 6}"
  by (simp add: steps_trace_def Let_def)

lemma set_loop_trace:
  "set (loop_trace inp) = {loop_trace inp ! 0, loop_trace inp ! 1, loop_trace inp ! 2,
     loop_trace inp ! 3, loop_trace inp ! 4, loop_trace inp ! 5, loop_trace inp ! 6}"
  by (simp add: loop_trace_def Let_def)

lemma shape_steps_trace:
  "k < 7 \<Longrightarrow> nrows (steps_trace inp ! k) = nrows (np_lc_map inp)"
  "k < 7 \<Longrightarrow> ncols (steps_trace inp ! k) = ncols (np_lc_map inp)"
proof -
  have "k < 7 \<longleftrightarrow> k = 0 \<or> k = 1 \<or> k = 2 \<or> k = 3 \<or> k = 4 \<or> k = 5 \<or> k = 6" by arith
  moreover have "nrows (steps_trace inp ! 0) = nrows (np_lc_map inp)"
    "nrows (steps_trace inp ! 1) = nrows (np_lc_map inp)"
    "nrows (steps_trace inp ! 2) = nrows (np_lc_map inp)"
    "nrows (steps_trace inp ! 3) = nrows (np_lc_map inp)"
    "nrows (steps_trace inp ! 4) = nrows (np_lc_map inp)"
    "nrows (steps_trace inp ! 5) = nrows (np_lc_map inp)"
    "nrows (steps_trace inp ! 6) = nrows (np_lc_map inp)"
    "ncols (steps_trace inp ! 0) = ncols (np_lc_map inp)"
    "ncols (steps_trace inp ! 1) = ncols (np_lc_map inp)"
    "ncols (steps_trace inp ! 2) = ncols (np_lc_map inp)"
    "ncols (steps_trace inp ! 3) = ncols (np_lc_map inp)"
    "ncols (steps_trace inp ! 4) = ncols (np_lc_map inp)"
    "ncols (steps_trace inp ! 5) = ncols (np_lc_map inp)"
    "ncols (steps_trace inp ! 6) = ncols (np_lc_map inp)"
    by (simp_all add: steps_trace_def Let_def shape_rules shape_majority_filter)
  ultimately show "k < 7 \<Longrightarrow> nrows (steps_trace inp ! k) = nrows (np_lc_map inp)"
    "k < 7 \<Longrightarrow> ncols (steps_trace inp ! k) = ncols (np_lc_map inp)"
    by auto
qed

lemma shape_loop_trace:
  "k < 7 \<Longrightarrow> nrows (loop_trace inp ! k) = nrows (np_lc_map inp)"
  "k < 7 \<Longrightarrow> ncols (loop_trace inp ! k) = ncols (np_lc_map inp)"
proof -
  have "k < 7 \<longleftrightarrow> k = 0 \<or> k = 1 \<or> k = 2 \<or> k = 3 \<or> k = 4 \<or> k = 5 \<or> k = 6" by arith
  moreover have "nrows (loop_trace inp ! 0) = nrows (np_lc_map inp)"
    "nrows (loop_trace inp ! 1) = nrows (np_lc_map inp)"
    "nrows (loop_trace inp ! 2) = nrows (np_lc_map inp)"
    "nrows (loop_trace inp ! 3) = nrows (np_lc_map inp)"
    "nrows (loop_trace inp ! 4) = nrows (np_lc_map inp)"
    "nrows (loop_trace inp ! 5) = nrows (np_lc_map inp)"
    "nrows (loop_trace inp ! 6) = nrows (np_lc_map inp)"
    "ncols (loop_trace inp ! 0) = ncols (np_lc_map inp)"
    "ncols (loop_trace inp ! 1) = ncols (np_lc_map inp)"
    "ncols (loop_trace inp ! 2) = ncols (np_lc_map inp)"
    "ncols (loop_trace inp ! 3) = ncols (np_lc_map inp)"
    "ncols (loop_trace inp ! 4) = ncols (np_lc_map inp)"
    "ncols (loop_trace inp ! 5) = ncols (np_lc_map inp)"
    "ncols (loop_trace inp ! 6) = ncols (np_lc_map inp)"
    by (simp_all add: loop_trace_def Let_def shape_rules shape_majority_filter)
  ultimately show "k < 7 \<Longrightarrow> nrows (loop_trace inp ! k) = nrows (np_lc_map inp)"
    "k < 7 \<Longrightarrow> ncols (loop_trace inp ! k) = ncols (np_lc_map inp)"
    by auto
qed

lemma postproc_steps_Inr:
  "postproc_steps inp = Inr out \<longleftrightarrow> aligned inp \<and> out = steps_trace inp ! 6"
  by (auto simp: postproc_steps_def steps_trace_nth)

lemma postproc_loop_Inr:
  "postproc_loop inp = Inr out \<longleftrightarrow> aligned inp \<and> out = loop_trace inp ! 6"
  by (auto simp: postproc_loop_def loop_trace_nth)

text \<open>The value of a cell after each step, from the value before it.\<close>

lemma steps_cell:
  assumes "r < nrows (np_lc_map inp)" "c < ncols (np_lc_map inp)"
  shows "cell (steps_trace inp ! 1) r c = (if cond_hydrology inp r c then 44 else cell (steps_trace inp ! 0) r c)"
    and "cell (steps_trace inp ! 2) r c = (if cond_index inp r c then 44 else cell (steps_trace inp ! 1) r c)"
    and "cell (steps_trace inp ! 3) r c = (if cond_footprint 255 inp r c then 51 else cell (steps_trace inp ! 2) r c)"
    and "cell (steps_trace inp ! 4) r c = (if cond_road inp r c then 51 else cell (steps_trace inp ! 3) r c)"
    and "cell (steps_trace inp ! 5) r c = (if cond_flooded inp r c then 12 else cell (steps_trace inp ! 4) r c)"
    and "cell (steps_trace inp ! 6) r c = (if cond_mangrove inp r c then 21 else cell (steps_trace inp ! 5) r c)"
  using assms
  by (simp_all add: steps_trace_nth cell_rules shape_rules shape_majority_filter)

lemma loop_cell:
  assumes "r < nrows (np_lc_map inp)" "c < ncols (np_lc_map inp)"
  shows "cell (loop_trace inp ! 1) r c = (if cond_hydrology inp r c then 44 else cell (loop_trace inp ! 0) r c)"
    and "cell (loop_trace inp ! 2) r c = (if cond_index inp r c then 44 else cell (loop_trace inp ! 1) r c)"
    and "cell (loop_trace inp ! 3) r c = (if cond_footprint 1 inp r c then 51 else cell (loop_trace inp ! 2) r c)"
    and "cell (loop_trace inp ! 4) r c = (if cond_flooded inp r c then 12 else cell (loop_trace inp ! 3) r c)"
    and "cell (loop_trace inp ! 5) r c = (if cond_road inp r c then 51 else cell (loop_trace inp ! 4) r c)"
    and "cell (loop_trace inp ! 6) r c = (if cond_mangrove inp r c then 21 else cell (loop_trace inp ! 5) r c)"
  using assms
  by (simp_all add: loop_trace_nth cell_rules shape_rules shape_majority_filter)

lemma sq_bound:
  fixes d :: int
  assumes "d * d \<le> k * k" "0 \<le> k"
  shows "- k \<le> d \<and> d \<le> k"
proof -
  have "\<bar>d\<bar> \<le> k"
  proof (rule ccontr)
    assume "\<not> \<bar>d\<bar> \<le> k"
    then have "k < \<bar>d\<bar>" by simp
    from mult_strict_mono' [OF this this assms(2) assms(2)]
    have "k * k < \<bar>d\<bar> * \<bar>d\<bar>" .
    then show False using assms(1) by simp
  qed
  then show ?thesis by auto
qed

lemma disk_member_sq:
  "0 \<le> k \<Longrightarrow> (dr, dc) \<in> set (disk k) \<longleftrightarrow> dr\<^sup>2 + dc\<^sup>2 \<le> k\<^sup>2"
proof -
  assume k: "0 \<le> k"
  have "- k \<le> dr \<and> dr \<le> k \<and> - k \<le> dc \<and> dc \<le> k" if h: "dr * dr + dc * dc \<le> k * k"
  proof -
    have "0 \<le> dr * dr" "0 \<le> dc * dc" by simp_all
    with h have "dr * dr \<le> k * k" "dc * dc \<le> k * k" by linarith+
    then show ?thesis using sq_bound k by blast
  qed
  then show ?thesis by (auto simp: disk_member power2_eq_square)
qed

lemma urban_buffered_iff:
  "urban_buffered inp r c \<longleftrightarrow>
     (\<exists>r' c'. r' < nrows (np_lc_map inp) \<and> c' < ncols (np_lc_map inp) \<and>
        (int r' - int r)\<^sup>2 + (int c' - int c)\<^sup>2 \<le> 5\<^sup>2 \<and>
        cell (np_lc_map inp) r' c' = code_of ''Settlements'')"
proof -
  have "urban_buffered inp r c \<longleftrightarrow>
     (\<exists>p \<in> set (window (disk 5) (nrows (np_lc_map inp)) (ncols (np_lc_map inp)) r c).
        cell (np_lc_map inp) (fst p) (snd p) = code_of ''Settlements'')"
    by (simp add: urban_buffered_def binary_dilation_def list_ex_iff case_prod_beta)
  also have "\<dots> \<longleftrightarrow>
     (\<exists>r' c'. (r', c') \<in> set (window (disk 5) (nrows (np_lc_map inp)) (ncols (np_lc_map inp)) r c) \<and>
        cell (np_lc_map inp) r' c' = code_of ''Settlements'')"
    by (metis fst_conv snd_conv surj_pair)
  also have "\<dots> \<longleftrightarrow>
     (\<exists>r' c'. r' < nrows (np_lc_map inp) \<and> c' < ncols (np_lc_map inp) \<and>
        (int r' - int r)\<^sup>2 + (int c' - int c)\<^sup>2 \<le> 5\<^sup>2 \<and>
        cell (np_lc_map inp) r' c' = code_of ''Settlements'')"
    using disk_member_sq [of 5] by (simp add: window_member)
  finally show ?thesis .
qed

lemma road_mask_cell:
  assumes "r < nrows (np_lc_map inp)" "c < ncols (np_lc_map inp)"
  shows "cell (np_road_network_mask inp) r c =
    (if \<exists>rd \<in> set (road_network_shp inp).
          (\<exists>s \<in> set road_surfaces. surface rd = Some s) \<and> (r, c) \<in> set (buffered_cells rd)
     then 1 else 0)"
proof -
  have "list_ex (\<lambda>rd. (r, c) \<in> set (buffered_cells rd)) (select_roads (road_network_shp inp)) \<longleftrightarrow>
      (\<exists>rd \<in> set (road_network_shp inp).
          (\<exists>s \<in> set road_surfaces. surface rd = Some s) \<and> (r, c) \<in> set (buffered_cells rd))"
    by (auto simp: list_ex_iff select_roads_def split: option.splits)
  then show ?thesis
    using assms by (simp add: np_road_network_mask_def xr_rasterize_def cell_tabulate2)
qed

lemma kernel_modal_Nil: "kernel_modal n [] = 0"
  by (simp add: kernel_modal_def)

lemma majority_filter_empty:
  assumes "r < nrows (np_lc_map inp)" "c < ncols (np_lc_map inp)"
    and "\<forall>r' < nrows (np_lc_map inp). \<forall>c' < ncols (np_lc_map inp).
            (int r' - int r)\<^sup>2 + (int c' - int c)\<^sup>2 \<le> 2\<^sup>2 \<longrightarrow> cell (np_lc_map inp) r' c' = 0"
  shows "cell (majority_filter inp) r c = 0"
proof -
  let ?lc = "np_lc_map inp"
  have "x \<notin> set (neighbourhood ?lc (disk 2) (\<lambda>r c. cell ?lc r c \<noteq> 0) r c)" for x
    using assms(3) by (auto simp: neighbourhood_member window_member disk_member power2_eq_square)
  then have "neighbourhood ?lc (disk 2) (\<lambda>r c. cell ?lc r c \<noteq> 0) r c = []"
    by (cases "neighbourhood ?lc (disk 2) (\<lambda>r c. cell ?lc r c \<noteq> 0) r c") auto
  then show ?thesis
    using assms(1,2) by (simp add: majority_filter_def cell_modal kernel_modal_Nil)
qed

lemma all_less_4: "(\<forall>i<4::nat. P i) \<longleftrightarrow> P 0 \<and> P 1 \<and> P 2 \<and> P 3"
proof -
  have "i < 4 \<longleftrightarrow> i = 0 \<or> i = 1 \<or> i = 2 \<or> i = 3" for i :: nat by arith
  then show ?thesis by auto
qed

lemma all_less_1: "(\<forall>i<1::nat. P i) \<longleftrightarrow> P 0"
  by simp

lemma road_free: "road_network_shp inp = [] \<Longrightarrow> r < nrows (np_lc_map inp) \<Longrightarrow>
    c < ncols (np_lc_map inp) \<Longrightarrow> cell (np_road_network_mask inp) r c = 0"
  by (simp add: road_mask_cell)

lemma codes_written:
  "44 \<in> set class_codes" "51 \<in> set class_codes" "12 \<in> set class_codes" "21 \<in> set class_codes"
  by (simp_all add: class_codes_def dict_map_def)

lemma majority_filter_value:
  assumes "r < nrows (np_lc_map inp)" "c < ncols (np_lc_map inp)"
  shows "cell (majority_filter inp) r c = 0 \<or>
    (\<exists>r' < nrows (np_lc_map inp). \<exists>c' < ncols (np_lc_map inp).
       cell (np_lc_map inp) r' c' \<noteq> 0 \<and> cell (majority_filter inp) r c = cell (np_lc_map inp) r' c')"
proof -
  let ?lc = "np_lc_map inp"
  let ?vs = "neighbourhood ?lc (disk 2) (\<lambda>r c. cell ?lc r c \<noteq> 0) r c"
  have k: "cell (majority_filter inp) r c = kernel_modal (n_bins ?lc) ?vs"
    using assms by (simp add: majority_filter_def cell_modal)
  from kernel_modal_member [of "n_bins ?lc" ?vs]
  show ?thesis
  proof
    assume "kernel_modal (n_bins ?lc) ?vs = 0"
    with k show ?thesis by simp
  next
    assume "kernel_modal (n_bins ?lc) ?vs \<in> set ?vs"
    then obtain r' c' where "(r', c') \<in> set (window (disk 2) (nrows ?lc) (ncols ?lc) r c)"
      "cell ?lc r' c' \<noteq> 0" "kernel_modal (n_bins ?lc) ?vs = cell ?lc r' c'"
      by (auto simp: neighbourhood_member)
    then show ?thesis using k by (auto simp: window_member)
  qed
qed

lemma tabulate2_cong:
  "(\<And>r c. r < nr \<Longrightarrow> c < nc \<Longrightarrow> f r c = g r c) \<Longrightarrow> tabulate2 nr nc f = tabulate2 nr nc g"
  by (simp add: tabulate2_def)

lemma assign_where_commute:
  assumes "\<And>r c. \<not> (p r c \<and> q r c)"
  shows "assign_where (assign_where b p v) q w = assign_where (assign_where b q w) p v"
proof -
  have "tabulate2 (nrows b) (ncols b) (\<lambda>r c. if q r c then w else cell (assign_where b p v) r c)
      = tabulate2 (nrows b) (ncols b) (\<lambda>r c. if p r c then v else cell (assign_where b q w) r c)"
  proof (rule tabulate2_cong)
    fix r c assume "r < nrows b" "c < ncols b"
    then show "(if q r c then w else cell (assign_where b p v) r c)
        = (if p r c then v else cell (assign_where b q w) r c)"
      using assms [of r c] by (simp add: cell_assign_where)
  qed
  then show ?thesis
    by (simp add: assign_where_def [of "assign_where b p v"] assign_where_def [of "assign_where b q w"]
        nrows_assign_where ncols_assign_where)
qed

lemma flooded_mangrove_commute:
  "rule_flooded inp (rule_mangrove inp b) = rule_mangrove inp (rule_flooded inp b)"
  unfolding rule_flooded_def rule_mangrove_def
  by (rule assign_where_commute) (simp add: cond_flooded_def cond_mangrove_def code_flooded code_mangrove)

lemma swapped_same: "postproc_swapped inp = postproc_steps inp"
  by (simp add: postproc_swapped_def postproc_steps_def steps_trace_nth flooded_mangrove_commute)

section \<open>The claims\<close>

text \<open>
  C1 as stated fails: a no-data cell whose water index is at least 0 becomes Water body,
  and the filter writes the mode of the populated neighbours into a no-data cell.
\<close>

theorem nodata_counterexample:
  "cell (np_lc_map fx1_index) 0 0 = 0 \<and> postproc_steps fx1_index = Inr [[44]]
   \<and> postproc_loop fx1_index = Inr [[44]]
   \<and> cell (np_lc_map fx1_filter) 0 0 = 0 \<and> majority_filter fx1_filter = [[44, 44]]
   \<and> postproc_steps fx1_filter = Inr [[44, 44]] \<and> postproc_loop fx1_filter = Inr [[44, 44]]"
  by code_simp

text \<open>
  C1, amended. A cell whose input value is 0 and at which no mask condition of Steps 2 to 5
  holds (river mask not 1, water index not at least 0, building mask not 1, settlement
  footprint not the tested sentinel, road mask not 1) holds, in every intermediate raster
  and in the final output, the value the majority filter wrote there; that value is 0 when
  no populated cell lies within the footprint of radius 2.
\<close>

theorem nodata_kept_where_no_rule_fires:
  assumes "aligned inp" and "r < nrows (np_lc_map inp)" and "c < ncols (np_lc_map inp)"
    and "cell (np_lc_map inp) r c = 0"
    and "cell (np_river_network_mask inp) r c \<noteq> 1"
    and "\<not> f_ge (cell (np_MNDWI inp) r c) 0"
    and "\<not> f_eq (cell (np_google_buildings_mask inp) r c) 1"
    and "cell (np_road_network_mask inp) r c \<noteq> 1"
  shows "(cell (np_wsf2019 inp) r c \<noteq> 255 \<longrightarrow>
            (\<forall>b \<in> set (steps_trace inp). cell b r c = cell (majority_filter inp) r c))
       \<and> (cell (np_wsf2019 inp) r c \<noteq> 1 \<longrightarrow>
            (\<forall>b \<in> set (loop_trace inp). cell b r c = cell (majority_filter inp) r c))
       \<and> ((\<forall>r' < nrows (np_lc_map inp). \<forall>c' < ncols (np_lc_map inp).
              (int r' - int r)\<^sup>2 + (int c' - int c)\<^sup>2 \<le> 2\<^sup>2 \<longrightarrow> cell (np_lc_map inp) r' c' = 0)
           \<longrightarrow> cell (majority_filter inp) r c = 0)"
proof -
  have no: "\<not> cond_hydrology inp r c" "\<not> cond_index inp r c" "\<not> cond_road inp r c"
    "\<not> cond_flooded inp r c" "\<not> cond_mangrove inp r c"
    using assms(4-8)
    by (simp_all add: cond_hydrology_def cond_index_def cond_road_def cond_flooded_def
        cond_mangrove_def code_water code_flooded code_mangrove)
  have fp: "cell (np_wsf2019 inp) r c \<noteq> k \<Longrightarrow> \<not> cond_footprint k inp r c" for k
    using assms(7) by (simp add: cond_footprint_def)
  have s: "\<forall>b \<in> set (steps_trace inp). cell b r c = cell (majority_filter inp) r c"
    if "cell (np_wsf2019 inp) r c \<noteq> 255"
    unfolding set_steps_trace
    using steps_cell [OF assms(2,3)] no fp [OF that] by (simp add: steps_trace_nth(1))
  have l: "\<forall>b \<in> set (loop_trace inp). cell b r c = cell (majority_filter inp) r c"
    if "cell (np_wsf2019 inp) r c \<noteq> 1"
    unfolding set_loop_trace
    using loop_cell [OF assms(2,3)] no fp [OF that] by (simp add: loop_trace_nth(1))
  from s l majority_filter_empty [OF assms(2,3)] show ?thesis by blast
qed

theorem nodata_kept_where_no_rule_fires_witness:
  "aligned fx1_nodata \<and> cell (np_lc_map fx1_nodata) 0 1 = 0
   \<and> cell (np_wsf2019 fx1_nodata) 0 1 = 0
   \<and> cell (majority_filter fx1_nodata) 0 1 = 12
   \<and> cell (last (steps_trace fx1_nodata)) 0 1 = 12 \<and> cell (last (loop_trace fx1_nodata)) 0 1 = 12
   \<and> cell (np_lc_map fx1_nodata) 0 0 = 0
   \<and> cell (majority_filter fx1_nodata) 0 0 = 0
   \<and> cell (last (steps_trace fx1_nodata)) 0 0 = 0 \<and> cell (last (loop_trace fx1_nodata)) 0 0 = 0"
proof -
  have a: "aligned fx1_nodata"
    by (simp add: aligned_def fx1_nodata_def nrows_def ncols_def has_shape_def)
  have n: "nrows (np_lc_map fx1_nodata) = 1" "ncols (np_lc_map fx1_nodata) = 4"
    by (simp_all add: fx1_nodata_def nrows_def ncols_def)
  have r0: "0 < nrows (np_lc_map fx1_nodata)" and c0: "0 < ncols (np_lc_map fx1_nodata)"
    and c1: "1 < ncols (np_lc_map fx1_nodata)"
    by (simp_all add: n)
  have nr: "road_network_shp fx1_nodata = []" by (simp add: fx1_nodata_def)
  have road0: "cell (np_road_network_mask fx1_nodata) 0 0 \<noteq> 1"
    using road_free [OF nr r0 c0] by simp
  have road1: "cell (np_road_network_mask fx1_nodata) 0 1 \<noteq> 1"
    using road_free [OF nr r0 c1] by simp
  have lc0: "cell (np_lc_map fx1_nodata) 0 0 = 0" and lc1: "cell (np_lc_map fx1_nodata) 0 1 = 0"
    and riv0: "cell (np_river_network_mask fx1_nodata) 0 0 \<noteq> 1"
    and riv1: "cell (np_river_network_mask fx1_nodata) 0 1 \<noteq> 1"
    and mn0: "\<not> f_ge (cell (np_MNDWI fx1_nodata) 0 0) 0"
    and mn1: "\<not> f_ge (cell (np_MNDWI fx1_nodata) 0 1) 0"
    and bld0: "\<not> f_eq (cell (np_google_buildings_mask fx1_nodata) 0 0) 1"
    and bld1: "\<not> f_eq (cell (np_google_buildings_mask fx1_nodata) 0 1) 1"
    and wsf0: "cell (np_wsf2019 fx1_nodata) 0 0 = 0" and wsf1: "cell (np_wsf2019 fx1_nodata) 0 1 = 0"
    by (simp_all add: fx1_nodata_def cell_def)
  have far: "\<forall>r' < nrows (np_lc_map fx1_nodata). \<forall>c' < ncols (np_lc_map fx1_nodata).
              (int r' - int 0)\<^sup>2 + (int c' - int 0)\<^sup>2 \<le> 2\<^sup>2 \<longrightarrow> cell (np_lc_map fx1_nodata) r' c' = 0"
    unfolding n all_less_4 all_less_1 by (simp add: fx1_nodata_def cell_def)
  have f: "cell (majority_filter fx1_nodata) 0 1 = 12" by code_simp
  have l: "last (steps_trace fx1_nodata) \<in> set (steps_trace fx1_nodata)"
    "last (loop_trace fx1_nodata) \<in> set (loop_trace fx1_nodata)"
    by (simp_all add: steps_trace_def loop_trace_def Let_def)
  have w0: "cell (np_wsf2019 fx1_nodata) 0 0 \<noteq> 255" "cell (np_wsf2019 fx1_nodata) 0 0 \<noteq> 1"
    and w1: "cell (np_wsf2019 fx1_nodata) 0 1 \<noteq> 255" "cell (np_wsf2019 fx1_nodata) 0 1 \<noteq> 1"
    using wsf0 wsf1 by simp_all
  note t0 = nodata_kept_where_no_rule_fires [OF a r0 c0 lc0 riv0 mn0 bld0 road0]
  note t1 = nodata_kept_where_no_rule_fires [OF a r0 c1 lc1 riv1 mn1 bld1 road1]
  from t0 far have m0: "cell (majority_filter fx1_nodata) 0 0 = 0" by blast
  from t0 w0 l have "cell (last (steps_trace fx1_nodata)) 0 0 = cell (majority_filter fx1_nodata) 0 0"
    "cell (last (loop_trace fx1_nodata)) 0 0 = cell (majority_filter fx1_nodata) 0 0" by blast+
  with m0 have e0: "cell (last (steps_trace fx1_nodata)) 0 0 = 0"
    "cell (last (loop_trace fx1_nodata)) 0 0 = 0" by simp_all
  from t1 w1 l have "cell (last (steps_trace fx1_nodata)) 0 1 = cell (majority_filter fx1_nodata) 0 1"
    "cell (last (loop_trace fx1_nodata)) 0 1 = cell (majority_filter fx1_nodata) 0 1" by blast+
  with f have e1: "cell (last (steps_trace fx1_nodata)) 0 1 = 12"
    "cell (last (loop_trace fx1_nodata)) 0 1 = 12" by simp_all
  show ?thesis
    using a lc0 lc1 wsf1 f m0 e0 e1 by blast
qed

text \<open>
  C2 as stated fails: a cell that is Water body after Step 3 and lies on the building mask
  is Settlements after Step 4, and in the final output.
\<close>

theorem water_overwritten_counterexample:
  "cell (steps_trace fx2 ! 2) 0 0 = code_of ''Water body''
   \<and> cell (steps_trace fx2 ! 3) 0 0 = code_of ''Settlements''
   \<and> postproc_steps fx2 = Inr [[51, 44, 44]] \<and> postproc_loop fx2 = Inr [[51, 44, 44]]"
  by code_simp

text \<open>
  C2, amended. A cell that holds the Water-body code at the end of Step 3 holds it after
  each of the four later steps exactly when none of their conditions holds at the cell:
  the building mask is not 1, the settlement footprint is not the tested sentinel (255 in
  the step-by-step cells, 1 in the loops), the road mask is not 1, the cell is not an
  original flooded-vegetation cell inside the settlement dilation, and it is not an original
  Mangrove cell with coastline mask 0.
\<close>

theorem water_kept_where_no_later_rule_fires:
  assumes "aligned inp" and "r < nrows (np_lc_map inp)" and "c < ncols (np_lc_map inp)"
    and "cell (steps_trace inp ! 2) r c = code_of ''Water body''"
  shows "((cell (steps_trace inp ! 3) r c = code_of ''Water body''
           \<and> cell (steps_trace inp ! 4) r c = code_of ''Water body''
           \<and> cell (steps_trace inp ! 5) r c = code_of ''Water body''
           \<and> cell (steps_trace inp ! 6) r c = code_of ''Water body'')
          \<longleftrightarrow>
          (\<not> f_eq (cell (np_google_buildings_mask inp) r c) 1
           \<and> cell (np_wsf2019 inp) r c \<noteq> 255
           \<and> cell (np_road_network_mask inp) r c \<noteq> 1
           \<and> \<not> (urban_buffered inp r c \<and> cell (np_lc_map inp) r c =
                   code_of ''Aquatic or regularly flooded herbaceous vegetation'')
           \<and> \<not> (cell (np_shorelines_2021_mask inp) r c = 0
                  \<and> cell (np_lc_map inp) r c = code_of ''Mangrove'')))
       \<and> ((cell (loop_trace inp ! 3) r c = code_of ''Water body''
           \<and> cell (loop_trace inp ! 4) r c = code_of ''Water body''
           \<and> cell (loop_trace inp ! 5) r c = code_of ''Water body''
           \<and> cell (loop_trace inp ! 6) r c = code_of ''Water body'')
          \<longleftrightarrow>
          (\<not> f_eq (cell (np_google_buildings_mask inp) r c) 1
           \<and> cell (np_wsf2019 inp) r c \<noteq> 1
           \<and> cell (np_road_network_mask inp) r c \<noteq> 1
           \<and> \<not> (urban_buffered inp r c \<and> cell (np_lc_map inp) r c =
                   code_of ''Aquatic or regularly flooded herbaceous vegetation'')
           \<and> \<not> (cell (np_shorelines_2021_mask inp) r c = 0
                  \<and> cell (np_lc_map inp) r c = code_of ''Mangrove'')))"
proof -
  have l2: "loop_trace inp ! 2 = steps_trace inp ! 2"
    by (simp add: steps_trace_nth loop_trace_nth)
  from assms(4) have w: "cell (steps_trace inp ! 2) r c = 44" by (simp add: code_water)
  note s = steps_cell(3-6) [OF assms(2,3)]
  note l = loop_cell(3-6) [OF assms(2,3)]
  have steps: "(cell (steps_trace inp ! 3) r c = 44 \<and> cell (steps_trace inp ! 4) r c = 44
           \<and> cell (steps_trace inp ! 5) r c = 44 \<and> cell (steps_trace inp ! 6) r c = 44)
      \<longleftrightarrow> (\<not> cond_footprint 255 inp r c \<and> \<not> cond_road inp r c \<and> \<not> cond_flooded inp r c
           \<and> \<not> cond_mangrove inp r c)"
    unfolding s using w by auto
  have loop: "(cell (loop_trace inp ! 3) r c = 44 \<and> cell (loop_trace inp ! 4) r c = 44
           \<and> cell (loop_trace inp ! 5) r c = 44 \<and> cell (loop_trace inp ! 6) r c = 44)
      \<longleftrightarrow> (\<not> cond_footprint 1 inp r c \<and> \<not> cond_road inp r c \<and> \<not> cond_flooded inp r c
           \<and> \<not> cond_mangrove inp r c)"
    unfolding l l2 using w by auto
  show ?thesis
    unfolding code_water steps loop
    by (auto simp: cond_footprint_def cond_road_def cond_flooded_def cond_mangrove_def)
qed

theorem water_kept_where_no_later_rule_fires_witness:
  "aligned fx2 \<and> cell (steps_trace fx2 ! 2) 0 2 = code_of ''Water body''
   \<and> cell (steps_trace fx2 ! 6) 0 2 = code_of ''Water body''
   \<and> cell (loop_trace fx2 ! 6) 0 2 = code_of ''Water body''"
proof -
  have a: "aligned fx2"
    by (simp add: aligned_def fx2_def nrows_def ncols_def has_shape_def)
  have r0: "0 < nrows (np_lc_map fx2)" and c2: "2 < ncols (np_lc_map fx2)"
    by (simp_all add: fx2_def nrows_def ncols_def)
  have w: "cell (steps_trace fx2 ! 2) 0 2 = code_of ''Water body''" by code_simp
  have nr: "road_network_shp fx2 = []" by (simp add: fx2_def)
  have road: "cell (np_road_network_mask fx2) 0 2 \<noteq> 1"
    using road_free [OF nr r0 c2] by simp
  have v: "\<not> f_eq (cell (np_google_buildings_mask fx2) 0 2) 1"
    "cell (np_wsf2019 fx2) 0 2 \<noteq> 255" "cell (np_wsf2019 fx2) 0 2 \<noteq> 1"
    "cell (np_lc_map fx2) 0 2 \<noteq> code_of ''Aquatic or regularly flooded herbaceous vegetation''"
    "cell (np_lc_map fx2) 0 2 \<noteq> code_of ''Mangrove''"
    by (simp_all add: fx2_def cell_def code_flooded code_mangrove)
  from water_kept_where_no_later_rule_fires [OF a r0 c2 w] road v
  have "cell (steps_trace fx2 ! 6) 0 2 = code_of ''Water body''"
    "cell (loop_trace fx2 ! 6) 0 2 = code_of ''Water body''" by blast+
  with a w show ?thesis by blast
qed

text \<open>
  C3. The step-by-step cells and the loop body are not the same rule sequence: on
  \<open>fx3\<close> a cell with settlement footprint 255 is Settlements only in the step-by-step
  run, and an original flooded-vegetation cell under a paved road near a settlement is
  Field crops in the step-by-step run and Settlements in the loop.
\<close>

theorem copies_of_the_rules_differ:
  "postproc_steps fx3 = Inr [[51, 12, 12, 12, 12]] \<and> postproc_loop fx3 = Inr [[12, 12, 12, 51, 12]]"
  by code_simp

text \<open>
  C4 as stated fails: no input, and so none with an original flooded-vegetation cell inside
  the settlement dilation and outside the coastline buffer, gives a different output when
  the mangrove rule runs before the flooded-vegetation rule.
\<close>

theorem order_sensitivity_counterexample:
  "\<not> (\<exists>inp r c. aligned inp \<and> r < nrows (np_lc_map inp) \<and> c < ncols (np_lc_map inp)
        \<and> cell (np_lc_map inp) r c = code_of ''Aquatic or regularly flooded herbaceous vegetation''
        \<and> urban_buffered inp r c \<and> cell (np_shorelines_2021_mask inp) r c = 0
        \<and> postproc_swapped inp \<noteq> postproc_steps inp)"
  by (simp add: swapped_same)

text \<open>
  C4, amended. The flooded-vegetation rule and the mangrove rule commute: for every input,
  running Step 7 before Step 6 gives the final output of the fixed order (the two rules
  test different original codes and read only the original raster and the masks).
\<close>

theorem flooded_and_mangrove_rules_commute:
  "postproc_swapped inp = postproc_steps inp"
  by (rule swapped_same)

theorem flooded_and_mangrove_rules_commute_witness:
  "aligned fx10
   \<and> cell (np_lc_map fx10) 0 3 = code_of ''Aquatic or regularly flooded herbaceous vegetation''
   \<and> urban_buffered fx10 0 3 \<and> cell (np_shorelines_2021_mask fx10) 0 3 = 0
   \<and> postproc_steps fx10 = Inr [[21, 70, 21, 12, 41]]
   \<and> postproc_swapped fx10 = Inr [[21, 70, 21, 12, 41]]"
proof -
  have v: "aligned fx10
   \<and> cell (np_lc_map fx10) 0 3 = code_of ''Aquatic or regularly flooded herbaceous vegetation''
   \<and> urban_buffered fx10 0 3 \<and> cell (np_shorelines_2021_mask fx10) 0 3 = 0
   \<and> postproc_steps fx10 = Inr [[21, 70, 21, 12, 41]]"
    by code_simp
  with flooded_and_mangrove_rules_commute [of fx10] show ?thesis by simp
qed

text \<open>
  C5. Step 2 writes the Water-body code into a cell exactly when the original (pre-filter)
  value is the Water-body code and the elevation above drainage is at most 45, or the river
  mask is 1; every other cell keeps what the filter wrote. A cell with original code
  Water-body, elevation 50 and river mask 0 is therefore not changed by Step 2, and Step 3
  sets it to Water-body when its water index is at least 0. Both code paths run these two
  steps alike.
\<close>

theorem water_rules:
  assumes "aligned inp" and "r < nrows (np_lc_map inp)" and "c < ncols (np_lc_map inp)"
  shows "cell (steps_trace inp ! 1) r c =
           (if (cell (np_lc_map inp) r c = code_of ''Water body'' \<and> f_le (cell (np_hand inp) r c) 45)
               \<or> cell (np_river_network_mask inp) r c = 1
            then code_of ''Water body'' else cell (steps_trace inp ! 0) r c)
       \<and> (cell (np_lc_map inp) r c = code_of ''Water body'' \<and> cell (np_hand inp) r c = Num 50
            \<and> cell (np_river_network_mask inp) r c = 0 \<longrightarrow>
          cell (steps_trace inp ! 1) r c = cell (steps_trace inp ! 0) r c
          \<and> (f_ge (cell (np_MNDWI inp) r c) 0 \<longrightarrow> cell (steps_trace inp ! 2) r c = code_of ''Water body''))
       \<and> loop_trace inp ! 1 = steps_trace inp ! 1 \<and> loop_trace inp ! 2 = steps_trace inp ! 2"
proof -
  have same: "loop_trace inp ! 1 = steps_trace inp ! 1" "loop_trace inp ! 2 = steps_trace inp ! 2"
    by (simp_all add: steps_trace_nth loop_trace_nth)
  have cells: "cell (steps_trace inp ! 1) r c =
      (if cond_hydrology inp r c then 44 else cell (steps_trace inp ! 0) r c)"
    "cell (steps_trace inp ! 2) r c =
      (if cond_index inp r c then 44 else cell (steps_trace inp ! 1) r c)"
    by (rule steps_cell [OF assms(2,3)])+
  show ?thesis
    unfolding same cells by (auto simp: cond_hydrology_def cond_index_def code_water)
qed

theorem water_rules_witness:
  "aligned fx5 \<and> cell (np_lc_map fx5) 0 1 = code_of ''Water body''
   \<and> cell (np_hand fx5) 0 1 = Num 50 \<and> cell (np_river_network_mask fx5) 0 1 = 0
   \<and> cell (np_MNDWI fx5) 0 1 = Num 0.3
   \<and> cell (steps_trace fx5 ! 0) 0 1 = 12 \<and> cell (steps_trace fx5 ! 1) 0 1 = 12
   \<and> cell (steps_trace fx5 ! 2) 0 1 = 44"
proof -
  have a: "aligned fx5"
    by (simp add: aligned_def fx5_def nrows_def ncols_def has_shape_def)
  have n: "1 < ncols (np_lc_map fx5)" "0 < nrows (np_lc_map fx5)"
    by (simp_all add: fx5_def nrows_def ncols_def)
  have v: "cell (np_lc_map fx5) 0 1 = code_of ''Water body''" "cell (np_hand fx5) 0 1 = Num 50"
    "cell (np_river_network_mask fx5) 0 1 = 0" "cell (np_MNDWI fx5) 0 1 = Num 0.3"
    by (simp_all add: fx5_def cell_def code_water)
  have f: "cell (steps_trace fx5 ! 0) 0 1 = 12"
    by code_simp
  from water_rules [OF a n(2) n(1)] v f a show ?thesis
    by (simp add: code_water)
qed

text \<open>
  C6. A cell whose original value is the Mangrove code and whose coastline-buffer mask is 0
  holds the Forest-plantations code in the final output of both code paths; the witness is
  a \<open>5 \<times> 5\<close> raster with one Mangrove cell and an all-zero coastline mask.
\<close>

theorem mangrove_outside_coastline_buffer:
  assumes "postproc_steps inp = Inr out" and "postproc_loop inp = Inr out'"
    and "r < nrows (np_lc_map inp)" and "c < ncols (np_lc_map inp)"
    and "cell (np_lc_map inp) r c = code_of ''Mangrove''"
    and "cell (np_shorelines_2021_mask inp) r c = 0"
  shows "cell out r c = code_of ''Forest plantations'' \<and> cell out' r c = code_of ''Forest plantations''"
proof -
  from assms(1,2) have out: "out = steps_trace inp ! 6" "out' = loop_trace inp ! 6"
    by (simp_all add: postproc_steps_Inr postproc_loop_Inr)
  from assms(5,6) have "cond_mangrove inp r c" by (simp add: cond_mangrove_def)
  then show ?thesis
    unfolding out using steps_cell(6) [OF assms(3,4)] loop_cell(6) [OF assms(3,4)]
    by (simp add: code_forest_plantations)
qed

theorem mangrove_outside_coastline_buffer_witness:
  "postproc_steps fx6 = Inr (steps_trace fx6 ! 6) \<and> postproc_loop fx6 = Inr (loop_trace fx6 ! 6)
   \<and> cell (np_lc_map fx6) 2 2 = 70 \<and> cell (np_shorelines_2021_mask fx6) 2 2 = 0
   \<and> cell (steps_trace fx6 ! 6) 2 2 = 21 \<and> cell (loop_trace fx6 ! 6) 2 2 = 21"
proof -
  have a: "aligned fx6"
    by (simp add: aligned_def fx6_def nrows_def ncols_def has_shape_def)
  then have p: "postproc_steps fx6 = Inr (steps_trace fx6 ! 6)" "postproc_loop fx6 = Inr (loop_trace fx6 ! 6)"
    by (simp_all add: postproc_steps_Inr postproc_loop_Inr)
  have n: "2 < nrows (np_lc_map fx6)" "2 < ncols (np_lc_map fx6)"
    by (simp_all add: fx6_def nrows_def ncols_def)
  have v: "cell (np_lc_map fx6) 2 2 = code_of ''Mangrove''" "cell (np_shorelines_2021_mask fx6) 2 2 = 0"
    by (simp_all add: fx6_def cell_def code_mangrove)
  from mangrove_outside_coastline_buffer [OF p n v] p v show ?thesis
    by (simp add: code_mangrove code_forest_plantations)
qed

text \<open>
  C7. The road mask is 1 in a cell exactly when a road whose surface attribute is in the
  allow-list covers the cell with its rasterised buffer; "dirt" is not in the list, so a
  cell covered only by roads with surface "dirt" has road mask 0 and the road rule leaves
  it as it was, in both code paths.
\<close>

theorem road_allow_list:
  assumes "aligned inp" and "r < nrows (np_lc_map inp)" and "c < ncols (np_lc_map inp)"
  shows "(cell (np_road_network_mask inp) r c = 1 \<longleftrightarrow>
            (\<exists>rd \<in> set (road_network_shp inp).
               (\<exists>s \<in> set road_surfaces. surface rd = Some s) \<and> (r, c) \<in> set (buffered_cells rd)))
       \<and> ''dirt'' \<notin> set road_surfaces
       \<and> ((\<forall>rd \<in> set (road_network_shp inp).
              (r, c) \<in> set (buffered_cells rd) \<longrightarrow> surface rd = Some ''dirt'')
           \<longrightarrow> cell (np_road_network_mask inp) r c = 0
             \<and> cell (steps_trace inp ! 4) r c = cell (steps_trace inp ! 3) r c
             \<and> cell (loop_trace inp ! 5) r c = cell (loop_trace inp ! 4) r c)"
proof -
  have dirt: "''dirt'' \<notin> set road_surfaces" by (simp add: road_surfaces_def)
  have m: "cell (np_road_network_mask inp) r c =
    (if \<exists>rd \<in> set (road_network_shp inp).
          (\<exists>s \<in> set road_surfaces. surface rd = Some s) \<and> (r, c) \<in> set (buffered_cells rd)
     then 1 else 0)"
    by (rule road_mask_cell [OF assms(2,3)])
  have first: "cell (np_road_network_mask inp) r c = 1 \<longleftrightarrow>
            (\<exists>rd \<in> set (road_network_shp inp).
               (\<exists>s \<in> set road_surfaces. surface rd = Some s) \<and> (r, c) \<in> set (buffered_cells rd))"
    unfolding m by simp
  have second: "cell (np_road_network_mask inp) r c = 0
             \<and> cell (steps_trace inp ! 4) r c = cell (steps_trace inp ! 3) r c
             \<and> cell (loop_trace inp ! 5) r c = cell (loop_trace inp ! 4) r c"
    if only: "\<forall>rd \<in> set (road_network_shp inp).
              (r, c) \<in> set (buffered_cells rd) \<longrightarrow> surface rd = Some ''dirt''"
  proof -
    from only dirt have "\<not> (\<exists>rd \<in> set (road_network_shp inp).
          (\<exists>s \<in> set road_surfaces. surface rd = Some s) \<and> (r, c) \<in> set (buffered_cells rd))"
      by auto
    with m have z: "cell (np_road_network_mask inp) r c = 0" by simp
    then have "\<not> cond_road inp r c" by (simp add: cond_road_def)
    with z show ?thesis
      using steps_cell(4) [OF assms(2,3)] loop_cell(5) [OF assms(2,3)] by simp
  qed
  from first dirt second show ?thesis by blast
qed

theorem road_allow_list_witness:
  "aligned fx7
   \<and> cell (np_road_network_mask fx7) 0 0 = 0
   \<and> cell (steps_trace fx7 ! 4) 0 0 = cell (steps_trace fx7 ! 3) 0 0
   \<and> cell (loop_trace fx7 ! 5) 0 0 = cell (loop_trace fx7 ! 4) 0 0
   \<and> cell (steps_trace fx7 ! 4) 0 0 = 12
   \<and> cell (np_road_network_mask fx7) 0 2 = 1 \<and> cell (steps_trace fx7 ! 4) 0 2 = 51"
proof -
  have a: "aligned fx7"
    by (simp add: aligned_def fx7_def nrows_def ncols_def has_shape_def)
  have r0: "0 < nrows (np_lc_map fx7)" and c0: "0 < ncols (np_lc_map fx7)"
    and c2: "2 < ncols (np_lc_map fx7)"
    by (simp_all add: fx7_def nrows_def ncols_def)
  have only: "\<forall>rd \<in> set (road_network_shp fx7).
              (0, 0) \<in> set (buffered_cells rd) \<longrightarrow> surface rd = Some ''dirt''"
    by (simp add: fx7_def)
  have paved: "\<exists>rd \<in> set (road_network_shp fx7).
               (\<exists>s \<in> set road_surfaces. surface rd = Some s) \<and> (0, 2) \<in> set (buffered_cells rd)"
    by (simp add: fx7_def road_surfaces_def)
  note t0 = road_allow_list [OF a r0 c0]
  note t2 = road_allow_list [OF a r0 c2]
  from t0 only have 0: "cell (np_road_network_mask fx7) 0 0 = 0"
    "cell (steps_trace fx7 ! 4) 0 0 = cell (steps_trace fx7 ! 3) 0 0"
    "cell (loop_trace fx7 ! 5) 0 0 = cell (loop_trace fx7 ! 4) 0 0" by blast+
  from t2 paved have 2: "cell (np_road_network_mask fx7) 0 2 = 1" by blast
  have v: "cell (steps_trace fx7 ! 4) 0 0 = 12" "cell (steps_trace fx7 ! 4) 0 2 = 51"
    by code_simp+
  from a 0 2 v show ?thesis by blast
qed

text \<open>
  C8. Mode-filter idempotence on uniform regions: a populated cell (value \<open>v \<noteq> 0\<close>) all
  of whose populated neighbours within the 2-cell circular footprint carry \<open>v\<close> keeps
  \<open>v\<close> under the majority filter, and a raster that is \<open>v\<close> everywhere is returned
  unchanged.
\<close>

theorem mode_filter_uniform:
  assumes "aligned inp" and "v \<noteq> 0"
  shows "(r < nrows (np_lc_map inp) \<and> c < ncols (np_lc_map inp) \<and> cell (np_lc_map inp) r c = v \<and>
          (\<forall>r' < nrows (np_lc_map inp). \<forall>c' < ncols (np_lc_map inp).
             (int r' - int r)\<^sup>2 + (int c' - int c)\<^sup>2 \<le> 2\<^sup>2 \<and> cell (np_lc_map inp) r' c' \<noteq> 0
             \<longrightarrow> cell (np_lc_map inp) r' c' = v)
          \<longrightarrow> cell (majority_filter inp) r c = v)
       \<and> ((\<forall>r' < nrows (np_lc_map inp). \<forall>c' < ncols (np_lc_map inp). cell (np_lc_map inp) r' c' = v)
          \<longrightarrow> majority_filter inp = np_lc_map inp)"
proof -
  let ?lc = "np_lc_map inp"
  have shape: "has_shape ?lc (nrows ?lc) (ncols ?lc)"
    by (rule aligned_lc_shape [OF assms(1)])
  have centre: "(0, 0) \<in> set (disk 2)" by (simp add: disk_member)
  have one: "cell (majority_filter inp) r c = v"
    if r: "r < nrows ?lc" and c: "c < ncols ?lc" and v: "cell ?lc r c = v"
      and nb: "\<forall>r' < nrows ?lc. \<forall>c' < ncols ?lc.
             (int r' - int r)\<^sup>2 + (int c' - int c)\<^sup>2 \<le> 2\<^sup>2 \<and> cell ?lc r' c' \<noteq> 0
             \<longrightarrow> cell ?lc r' c' = v" for r c
  proof -
    have same: "\<forall>(r', c') \<in> set (window (disk 2) (nrows ?lc) (ncols ?lc) r c).
                 cell ?lc r' c' \<noteq> 0 \<longrightarrow> cell ?lc r' c' = cell ?lc r c"
      using v nb by (auto simp: window_member disk_member power2_eq_square)
    from v assms(2) have "cell ?lc r c \<noteq> 0" by simp
    from modal_uniform [OF shape r c this centre same] v
    show ?thesis by (simp add: majority_filter_def)
  qed
  have all: "majority_filter inp = ?lc"
    if const: "\<forall>r' < nrows ?lc. \<forall>c' < ncols ?lc. cell ?lc r' c' = v"
  proof (rule raster_eqI [OF has_shape_majority_filter shape])
    show "nrows (majority_filter inp) = nrows ?lc" "ncols (majority_filter inp) = ncols ?lc"
      by (simp_all add: shape_majority_filter)
  next
    fix r c assume "r < nrows (majority_filter inp)" "c < ncols (majority_filter inp)"
    then have rc: "r < nrows ?lc" "c < ncols ?lc" by (simp_all add: shape_majority_filter)
    with const have v: "cell ?lc r c = v" by simp
    from const have "\<forall>r' < nrows ?lc. \<forall>c' < ncols ?lc.
             (int r' - int r)\<^sup>2 + (int c' - int c)\<^sup>2 \<le> 2\<^sup>2 \<and> cell ?lc r' c' \<noteq> 0
             \<longrightarrow> cell ?lc r' c' = v" by simp
    from one [OF rc v this] v show "cell (majority_filter inp) r c = cell ?lc r c" by simp
  qed
  from one all show ?thesis by blast
qed

theorem mode_filter_uniform_witness:
  "aligned fx8 \<and> cell (np_lc_map fx8) 0 0 = 44 \<and> cell (majority_filter fx8) 0 0 = 44 \<and>
   aligned fx8_uniform \<and> majority_filter fx8_uniform = [[44, 44, 44], [44, 44, 44], [44, 44, 44]]"
proof -
  have a: "aligned fx8" "aligned fx8_uniform"
    by (simp_all add: aligned_def fx8_uniform_def fx8_def nrows_def ncols_def has_shape_def)
  have h: "0 < nrows (np_lc_map fx8) \<and> 0 < ncols (np_lc_map fx8) \<and> cell (np_lc_map fx8) 0 0 = 44 \<and>
      (\<forall>r' < nrows (np_lc_map fx8). \<forall>c' < ncols (np_lc_map fx8).
           (int r' - int 0)\<^sup>2 + (int c' - int 0)\<^sup>2 \<le> 2\<^sup>2 \<and> cell (np_lc_map fx8) r' c' \<noteq> 0
           \<longrightarrow> cell (np_lc_map fx8) r' c' = 44)"
    by (simp add: nrows_def ncols_def numeral_3_eq_3 All_less_Suc fx8_def cell_def)
  have u: "\<forall>r' < nrows (np_lc_map fx8_uniform). \<forall>c' < ncols (np_lc_map fx8_uniform).
             cell (np_lc_map fx8_uniform) r' c' = 44"
    by (simp add: nrows_def ncols_def numeral_3_eq_3 All_less_Suc fx8_uniform_def fx8_def cell_def)
  have lc: "np_lc_map fx8_uniform = [[44, 44, 44], [44, 44, 44], [44, 44, 44]]"
    by (simp add: fx8_uniform_def)
  from mode_filter_uniform [OF a(1), of 44 0 0] h
  have 1: "cell (majority_filter fx8) 0 0 = 44" by simp
  from mode_filter_uniform [OF a(2), of 44 0 0] u lc
  have 2: "majority_filter fx8_uniform = [[44, 44, 44], [44, 44, 44], [44, 44, 44]]" by simp
  from a h 1 2 show ?thesis by simp
qed

text \<open>
  C9. When every populated cell of the input carries a code of \<open>dict_map\<close>, so does
  every populated cell of every intermediate raster and of the final output, in both code
  paths.
\<close>

theorem closed_code_set:
  assumes "aligned inp"
    and "\<forall>r < nrows (np_lc_map inp). \<forall>c < ncols (np_lc_map inp).
           cell (np_lc_map inp) r c \<noteq> 0 \<longrightarrow> cell (np_lc_map inp) r c \<in> set class_codes"
  shows "\<forall>b \<in> set (steps_trace inp) \<union> set (loop_trace inp).
           \<forall>r < nrows (np_lc_map inp). \<forall>c < ncols (np_lc_map inp).
             cell b r c \<noteq> 0 \<longrightarrow> cell b r c \<in> set class_codes"
proof -
  define ok where "ok v \<longleftrightarrow> v = 0 \<or> v \<in> set class_codes" for v :: nat
  have w: "ok 44" "ok 51" "ok 12" "ok 21" by (simp_all add: ok_def codes_written)
  have cells: "\<forall>b \<in> set (steps_trace inp) \<union> set (loop_trace inp). ok (cell b r c)"
    if r: "r < nrows (np_lc_map inp)" and c: "c < ncols (np_lc_map inp)" for r c
  proof -
    have f: "ok (cell (majority_filter inp) r c)"
      using majority_filter_value [OF r c] assms(2) by (auto simp: ok_def)
    have s0: "ok (cell (steps_trace inp ! 0) r c)" and l0: "ok (cell (loop_trace inp ! 0) r c)"
      using f by (simp_all add: steps_trace_nth(1) loop_trace_nth(1))
    have s1: "ok (cell (steps_trace inp ! 1) r c)" unfolding steps_cell(1) [OF r c] using s0 w by simp
    have s2: "ok (cell (steps_trace inp ! 2) r c)" unfolding steps_cell(2) [OF r c] using s1 w by simp
    have s3: "ok (cell (steps_trace inp ! 3) r c)" unfolding steps_cell(3) [OF r c] using s2 w by simp
    have s4: "ok (cell (steps_trace inp ! 4) r c)" unfolding steps_cell(4) [OF r c] using s3 w by simp
    have s5: "ok (cell (steps_trace inp ! 5) r c)" unfolding steps_cell(5) [OF r c] using s4 w by simp
    have s6: "ok (cell (steps_trace inp ! 6) r c)" unfolding steps_cell(6) [OF r c] using s5 w by simp
    have l1: "ok (cell (loop_trace inp ! 1) r c)" unfolding loop_cell(1) [OF r c] using l0 w by simp
    have l2: "ok (cell (loop_trace inp ! 2) r c)" unfolding loop_cell(2) [OF r c] using l1 w by simp
    have l3: "ok (cell (loop_trace inp ! 3) r c)" unfolding loop_cell(3) [OF r c] using l2 w by simp
    have l4: "ok (cell (loop_trace inp ! 4) r c)" unfolding loop_cell(4) [OF r c] using l3 w by simp
    have l5: "ok (cell (loop_trace inp ! 5) r c)" unfolding loop_cell(5) [OF r c] using l4 w by simp
    have l6: "ok (cell (loop_trace inp ! 6) r c)" unfolding loop_cell(6) [OF r c] using l5 w by simp
    show ?thesis
      unfolding set_steps_trace set_loop_trace
      using s0 s1 s2 s3 s4 s5 s6 l0 l1 l2 l3 l4 l5 l6 by blast
  qed
  show ?thesis
  proof (intro ballI allI impI)
    fix b r c
    assume "b \<in> set (steps_trace inp) \<union> set (loop_trace inp)"
      and "r < nrows (np_lc_map inp)" and "c < ncols (np_lc_map inp)" and nz: "cell b r c \<noteq> 0"
    with cells have "ok (cell b r c)" by blast
    with nz show "cell b r c \<in> set class_codes" by (simp add: ok_def)
  qed
qed

theorem closed_code_set_witness:
  "aligned fx8 \<and> cell (last (steps_trace fx8)) 2 2 \<in> set class_codes
   \<and> cell (last (loop_trace fx8)) 2 2 \<in> set class_codes
   \<and> cell (last (steps_trace fx8)) 2 2 = 44"
proof -
  have a: "aligned fx8"
    by (simp add: aligned_def fx8_def nrows_def ncols_def has_shape_def)
  have n: "2 < nrows (np_lc_map fx8)" "2 < ncols (np_lc_map fx8)"
    by (simp_all add: fx8_def nrows_def ncols_def)
  have h: "\<forall>r < nrows (np_lc_map fx8). \<forall>c < ncols (np_lc_map fx8).
           cell (np_lc_map fx8) r c \<noteq> 0 \<longrightarrow> cell (np_lc_map fx8) r c \<in> set class_codes"
    by (simp add: nrows_def ncols_def numeral_3_eq_3 All_less_Suc fx8_def cell_def
        class_codes_def dict_map_def)
  have l: "last (steps_trace fx8) \<in> set (steps_trace fx8) \<union> set (loop_trace fx8)"
    "last (loop_trace fx8) \<in> set (steps_trace fx8) \<union> set (loop_trace fx8)"
    by (simp_all add: steps_trace_def loop_trace_def Let_def)
  have v: "cell (last (steps_trace fx8)) 2 2 = 44" "cell (last (loop_trace fx8)) 2 2 = 44"
    by code_simp+
  then have nz: "cell (last (steps_trace fx8)) 2 2 \<noteq> 0" "cell (last (loop_trace fx8)) 2 2 \<noteq> 0"
    by simp_all
  from closed_code_set [OF a h] l n nz
  have "cell (last (steps_trace fx8)) 2 2 \<in> set class_codes"
    "cell (last (loop_trace fx8)) 2 2 \<in> set class_codes" by blast+
  with a v show ?thesis by blast
qed

text \<open>
  C10. The flooded-vegetation rule and the mangrove rule read the original raster only.
  Whatever the working array \<open>b\<close> holds, the flooded-vegetation rule writes Field crops
  into a cell exactly when the original value of the cell is the flooded-vegetation code
  and an original Settlements cell lies within 5 cells of it, and leaves every other cell
  as \<open>b\<close> has it; the mangrove rule writes Forest plantations exactly when the original
  value is the Mangrove code and the coastline mask is 0, and leaves every other cell as
  \<open>b\<close> has it. So a cell whose original value is neither code is left alone by both
  rules in either order, an original flooded-vegetation cell with no original Settlements
  cell within 5 cells is left alone even when the working array holds Settlements nearby,
  and a cell with the original code and the spatial condition is rewritten whatever the
  earlier steps wrote. Steps 6 and 7 of both code paths are these two rules.
\<close>

theorem rules_read_original_raster:
  assumes "r < nrows b" and "c < ncols b"
  shows "cell (rule_flooded inp b) r c =
           (if cell (np_lc_map inp) r c = code_of ''Aquatic or regularly flooded herbaceous vegetation''
               \<and> (\<exists>r' c'. r' < nrows (np_lc_map inp) \<and> c' < ncols (np_lc_map inp) \<and>
                     (int r' - int r)\<^sup>2 + (int c' - int c)\<^sup>2 \<le> 5\<^sup>2 \<and>
                     cell (np_lc_map inp) r' c' = code_of ''Settlements'')
            then code_of ''Field crops'' else cell b r c)
       \<and> cell (rule_mangrove inp b) r c =
           (if cell (np_lc_map inp) r c = code_of ''Mangrove''
               \<and> cell (np_shorelines_2021_mask inp) r c = 0
            then code_of ''Forest plantations'' else cell b r c)
       \<and> (cell (np_lc_map inp) r c \<noteq> code_of ''Aquatic or regularly flooded herbaceous vegetation''
            \<longrightarrow> cell (rule_flooded inp b) r c = cell b r c)
       \<and> (cell (np_lc_map inp) r c = code_of ''Aquatic or regularly flooded herbaceous vegetation''
            \<and> (\<exists>r' c'. r' < nrows (np_lc_map inp) \<and> c' < ncols (np_lc_map inp) \<and>
                  (int r' - int r)\<^sup>2 + (int c' - int c)\<^sup>2 \<le> 5\<^sup>2 \<and>
                  cell (np_lc_map inp) r' c' = code_of ''Settlements'')
            \<longrightarrow> cell (rule_flooded inp b) r c = code_of ''Field crops'')
       \<and> (\<not> (\<exists>r' c'. r' < nrows (np_lc_map inp) \<and> c' < ncols (np_lc_map inp) \<and>
                  (int r' - int r)\<^sup>2 + (int c' - int c)\<^sup>2 \<le> 5\<^sup>2 \<and>
                  cell (np_lc_map inp) r' c' = code_of ''Settlements'')
            \<longrightarrow> cell (rule_flooded inp b) r c = cell b r c)
       \<and> (cell (np_lc_map inp) r c \<noteq> code_of ''Mangrove''
            \<longrightarrow> cell (rule_mangrove inp b) r c = cell b r c)
       \<and> (cell (np_lc_map inp) r c = code_of ''Mangrove'' \<and> cell (np_shorelines_2021_mask inp) r c = 0
            \<longrightarrow> cell (rule_mangrove inp b) r c = code_of ''Forest plantations'')
       \<and> (cell (np_shorelines_2021_mask inp) r c \<noteq> 0
            \<longrightarrow> cell (rule_mangrove inp b) r c = cell b r c)
       \<and> (cell (np_lc_map inp) r c \<noteq> code_of ''Aquatic or regularly flooded herbaceous vegetation''
            \<and> cell (np_lc_map inp) r c \<noteq> code_of ''Mangrove''
            \<longrightarrow> cell (rule_mangrove inp (rule_flooded inp b)) r c = cell b r c
              \<and> cell (rule_flooded inp (rule_mangrove inp b)) r c = cell b r c)
       \<and> steps_trace inp ! 5 = rule_flooded inp (steps_trace inp ! 4)
       \<and> steps_trace inp ! 6 = rule_mangrove inp (steps_trace inp ! 5)
       \<and> loop_trace inp ! 4 = rule_flooded inp (loop_trace inp ! 3)
       \<and> loop_trace inp ! 6 = rule_mangrove inp (loop_trace inp ! 5)"
proof -
  let ?near = "\<exists>r' c'. r' < nrows (np_lc_map inp) \<and> c' < ncols (np_lc_map inp) \<and>
                  (int r' - int r)\<^sup>2 + (int c' - int c)\<^sup>2 \<le> 5\<^sup>2 \<and>
                  cell (np_lc_map inp) r' c' = code_of ''Settlements''"
  have fl: "cond_flooded inp r c \<longleftrightarrow>
      cell (np_lc_map inp) r c = code_of ''Aquatic or regularly flooded herbaceous vegetation'' \<and> ?near"
    using urban_buffered_iff [of inp r c] by (auto simp: cond_flooded_def)
  have mg: "cond_mangrove inp r c \<longleftrightarrow>
      cell (np_lc_map inp) r c = code_of ''Mangrove'' \<and> cell (np_shorelines_2021_mask inp) r c = 0"
    by (auto simp: cond_mangrove_def)
  have f: "cell (rule_flooded inp b') r c =
      (if cond_flooded inp r c then code_of ''Field crops'' else cell b' r c)"
    if "nrows b' = nrows b" "ncols b' = ncols b" for b'
    using cell_rules(5) [of r b' c inp] assms that by (simp add: code_field_crops)
  have m: "cell (rule_mangrove inp b') r c =
      (if cond_mangrove inp r c then code_of ''Forest plantations'' else cell b' r c)"
    if "nrows b' = nrows b" "ncols b' = ncols b" for b'
    using cell_rules(6) [of r b' c inp] assms that by (simp add: code_forest_plantations)
  have fb: "cell (rule_flooded inp b) r c =
      (if cond_flooded inp r c then code_of ''Field crops'' else cell b r c)"
    by (rule f) simp_all
  have mb: "cell (rule_mangrove inp b) r c =
      (if cond_mangrove inp r c then code_of ''Forest plantations'' else cell b r c)"
    by (rule m) simp_all
  have mf: "cell (rule_mangrove inp (rule_flooded inp b)) r c =
      (if cond_mangrove inp r c then code_of ''Forest plantations''
       else cell (rule_flooded inp b) r c)"
    by (rule m) (simp_all add: shape_rules)
  have fm: "cell (rule_flooded inp (rule_mangrove inp b)) r c =
      (if cond_flooded inp r c then code_of ''Field crops''
       else cell (rule_mangrove inp b) r c)"
    by (rule f) (simp_all add: shape_rules)
  have tr: "steps_trace inp ! 5 = rule_flooded inp (steps_trace inp ! 4)"
    "steps_trace inp ! 6 = rule_mangrove inp (steps_trace inp ! 5)"
    "loop_trace inp ! 4 = rule_flooded inp (loop_trace inp ! 3)"
    "loop_trace inp ! 6 = rule_mangrove inp (loop_trace inp ! 5)"
    by (rule steps_trace_nth loop_trace_nth)+
  show ?thesis
    unfolding mf fm fb mb fl mg by (intro conjI tr) (auto simp: code_flooded code_mangrove)
qed


theorem rules_read_original_raster_witness:
  "cell (np_lc_map fx10) 0 1 = 12 \<and> cell (steps_trace fx10 ! 5) 0 1 = 70
     \<and> cell (rule_mangrove fx10 (steps_trace fx10 ! 5)) 0 1 = 70
     \<and> cell (steps_trace fx10 ! 4) 0 1 = 70
     \<and> cell (rule_mangrove fx10 (rule_flooded fx10 (steps_trace fx10 ! 4))) 0 1 = 70
   \<and> cell (np_lc_map fx10) 0 0 = 70 \<and> cell (np_shorelines_2021_mask fx10) 0 0 = 0
     \<and> cell (rule_mangrove fx10 (steps_trace fx10 ! 5)) 0 0 = 21
   \<and> cell (np_lc_map fx10) 0 4 = 51 \<and> cell (steps_trace fx10 ! 4) 0 4 = 41
     \<and> cell (rule_flooded fx10 (steps_trace fx10 ! 4)) 0 4 = 41
   \<and> cell (np_lc_map fx10) 0 3 = 41 \<and> cell (steps_trace fx10 ! 4) 0 3 = 51
     \<and> cell (rule_flooded fx10 (steps_trace fx10 ! 4)) 0 3 = 12
   \<and> cell (np_lc_map fx10_seed) 0 0 = 41 \<and> cell (steps_trace fx10_seed ! 4) 0 2 = 51
     \<and> cell (steps_trace fx10_seed ! 4) 0 0 = 41
     \<and> cell (rule_flooded fx10_seed (steps_trace fx10_seed ! 4)) 0 0 = 41
   \<and> cell (np_lc_map fx10_seed) 0 3 = 70 \<and> cell (np_shorelines_2021_mask fx10_seed) 0 3 = 1
     \<and> cell (steps_trace fx10_seed ! 5) 0 3 = 41
     \<and> cell (rule_mangrove fx10_seed (steps_trace fx10_seed ! 5)) 0 3 = 41"
proof -
  let ?FL = "code_of ''Aquatic or regularly flooded herbaceous vegetation''"
  let ?MG = "code_of ''Mangrove''"
  have n: "nrows (np_lc_map fx10) = 1" "ncols (np_lc_map fx10) = 5"
    by (simp_all add: fx10_def nrows_def ncols_def)
  have r4: "0 < nrows (steps_trace fx10 ! 4)" and r5: "0 < nrows (steps_trace fx10 ! 5)"
    and c40: "0 < ncols (steps_trace fx10 ! 4)" and c41: "1 < ncols (steps_trace fx10 ! 4)"
    and c43: "3 < ncols (steps_trace fx10 ! 4)" and c44: "4 < ncols (steps_trace fx10 ! 4)"
    and c50: "0 < ncols (steps_trace fx10 ! 5)" and c51: "1 < ncols (steps_trace fx10 ! 5)"
    by (simp_all add: shape_steps_trace n)
  have lc: "cell (np_lc_map fx10) 0 1 = 12" "cell (np_lc_map fx10) 0 0 = 70"
    "cell (np_lc_map fx10) 0 4 = 51" "cell (np_lc_map fx10) 0 3 = 41"
    "cell (np_shorelines_2021_mask fx10) 0 0 = 0"
    by (simp_all add: fx10_def cell_def)
  have cls: "cell (np_lc_map fx10) 0 1 \<noteq> ?FL" "cell (np_lc_map fx10) 0 1 \<noteq> ?MG"
    "cell (np_lc_map fx10) 0 0 = ?MG" "cell (np_lc_map fx10) 0 4 \<noteq> ?FL"
    "cell (np_lc_map fx10) 0 3 = ?FL"
    by (simp_all add: fx10_def cell_def code_flooded code_mangrove)
  have pre: "cell (steps_trace fx10 ! 5) 0 1 = 70" "cell (steps_trace fx10 ! 4) 0 4 = 41"
    "cell (steps_trace fx10 ! 4) 0 3 = 51" "cell (steps_trace fx10 ! 4) 0 1 = 70"
    by code_simp+
  have near: "\<exists>r' c'. r' < nrows (np_lc_map fx10) \<and> c' < ncols (np_lc_map fx10) \<and>
                  (int r' - int 0)\<^sup>2 + (int c' - int 3)\<^sup>2 \<le> 5\<^sup>2 \<and>
                  cell (np_lc_map fx10) r' c' = code_of ''Settlements''"
    by (rule exI [of _ 0], rule exI [of _ 4]) (simp add: n lc code_settlements)
  from rules_read_original_raster [OF r5 c51, of fx10] cls(2)
  have "cell (rule_mangrove fx10 (steps_trace fx10 ! 5)) 0 1 = cell (steps_trace fx10 ! 5) 0 1"
    by blast
  with pre have 1: "cell (rule_mangrove fx10 (steps_trace fx10 ! 5)) 0 1 = 70" by simp
  from rules_read_original_raster [OF r4 c41, of fx10] cls(1,2)
  have "cell (rule_mangrove fx10 (rule_flooded fx10 (steps_trace fx10 ! 4))) 0 1
      = cell (steps_trace fx10 ! 4) 0 1"
    by blast
  with pre have 7: "cell (rule_mangrove fx10 (rule_flooded fx10 (steps_trace fx10 ! 4))) 0 1 = 70"
    by simp
  from rules_read_original_raster [OF r5 c50, of fx10] cls(3) lc(5)
  have "cell (rule_mangrove fx10 (steps_trace fx10 ! 5)) 0 0 = code_of ''Forest plantations''"
    by blast
  then have 2: "cell (rule_mangrove fx10 (steps_trace fx10 ! 5)) 0 0 = 21"
    by (simp add: code_forest_plantations)
  from rules_read_original_raster [OF r4 c44, of fx10] cls(4)
  have "cell (rule_flooded fx10 (steps_trace fx10 ! 4)) 0 4 = cell (steps_trace fx10 ! 4) 0 4"
    by blast
  with pre have 3: "cell (rule_flooded fx10 (steps_trace fx10 ! 4)) 0 4 = 41" by simp
  from rules_read_original_raster [OF r4 c43, of fx10] cls(5) near
  have "cell (rule_flooded fx10 (steps_trace fx10 ! 4)) 0 3 = code_of ''Field crops''"
    by blast
  then have 4: "cell (rule_flooded fx10 (steps_trace fx10 ! 4)) 0 3 = 12"
    by (simp add: code_field_crops)
  have n': "nrows (np_lc_map fx10_seed) = 1" "ncols (np_lc_map fx10_seed) = 4"
    by (simp_all add: fx10_seed_def nrows_def ncols_def)
  have r4': "0 < nrows (steps_trace fx10_seed ! 4)" and c40': "0 < ncols (steps_trace fx10_seed ! 4)"
    and r5': "0 < nrows (steps_trace fx10_seed ! 5)" and c53': "3 < ncols (steps_trace fx10_seed ! 5)"
    by (simp_all add: shape_steps_trace n')
  have lc': "cell (np_lc_map fx10_seed) 0 0 = 41" "cell (np_lc_map fx10_seed) 0 3 = 70"
    "cell (np_shorelines_2021_mask fx10_seed) 0 3 = 1"
    by (simp_all add: fx10_seed_def cell_def)
  have sh': "cell (np_shorelines_2021_mask fx10_seed) 0 3 \<noteq> 0"
    by (simp add: fx10_seed_def cell_def)
  have pre': "cell (steps_trace fx10_seed ! 4) 0 2 = 51" "cell (steps_trace fx10_seed ! 4) 0 0 = 41"
    "cell (steps_trace fx10_seed ! 5) 0 3 = 41"
    by code_simp+
  have none: "\<forall>r' < nrows (np_lc_map fx10_seed). \<forall>c' < ncols (np_lc_map fx10_seed).
      cell (np_lc_map fx10_seed) r' c' \<noteq> 51"
    unfolding n' all_less_4 all_less_1 by (simp add: fx10_seed_def cell_def)
  then have far: "\<not> (\<exists>r' c'. r' < nrows (np_lc_map fx10_seed) \<and> c' < ncols (np_lc_map fx10_seed) \<and>
                  (int r' - int 0)\<^sup>2 + (int c' - int 0)\<^sup>2 \<le> 5\<^sup>2 \<and>
                  cell (np_lc_map fx10_seed) r' c' = code_of ''Settlements'')"
    unfolding code_settlements by blast
  from rules_read_original_raster [OF r4' c40', of fx10_seed] far
  have "cell (rule_flooded fx10_seed (steps_trace fx10_seed ! 4)) 0 0
      = cell (steps_trace fx10_seed ! 4) 0 0" by blast
  with pre' have 5: "cell (rule_flooded fx10_seed (steps_trace fx10_seed ! 4)) 0 0 = 41" by simp
  from rules_read_original_raster [OF r5' c53', of fx10_seed] sh'
  have "cell (rule_mangrove fx10_seed (steps_trace fx10_seed ! 5)) 0 3
      = cell (steps_trace fx10_seed ! 5) 0 3" by blast
  with pre' have 6: "cell (rule_mangrove fx10_seed (steps_trace fx10_seed ! 5)) 0 3 = 41" by simp
  from lc pre 1 7 2 3 4 lc' pre' 5 6 show ?thesis by blast
qed

end
